theory Spec2Isabelle
  imports Complex_Main "HOL-Library.Sublist" "HOL-Library.Multiset"
begin

section \<open>JavaScript values used by the collection engine\<close>

text \<open>
  A thrown JavaScript error is kept as its \<open>message\<close>: every \<open>catch\<close> of the engine
  reads nothing else from the value it caught. A computation that may throw returns
  \<open>js_error + 'a\<close>, with \<open>Inl\<close> for the thrown error. The logger only receives
  messages and no branch depends on it; its calls are left out.
\<close>

datatype js_error = JsError (message: string)

text \<open>\<open>try { m } catch (e) { h e }\<close>\<close>

definition try_catch :: "js_error + 'a \<Rightarrow> (js_error \<Rightarrow> js_error + 'a) \<Rightarrow> js_error + 'a" where
  "try_catch m h = (case m of Inl e \<Rightarrow> h e | Inr v \<Rightarrow> Inr v)"

text \<open>
  A property that may be absent is a \<open>string option\<close>; \<open>undefined\<close>, \<open>null\<close> and the
  empty string are the falsy ones, and \<open>a || b\<close> is \<open>js_or a b\<close>.
\<close>

definition truthy :: "string option \<Rightarrow> bool" where
  "truthy v = (case v of None \<Rightarrow> False | Some s \<Rightarrow> s \<noteq> [])"

definition js_or :: "string option \<Rightarrow> string option \<Rightarrow> string option" where
  "js_or a b = (if truthy a then a else b)"

text \<open>\<open>a || 'literal'\<close>, whose value is always a string.\<close>

definition or_default :: "string option \<Rightarrow> string \<Rightarrow> string" where
  "or_default a d = (case a of None \<Rightarrow> d | Some s \<Rightarrow> if s = [] then d else s)"

definition nl :: string where
  "nl = [CHR 0x0A]"

text \<open>\<open>Array.prototype.join\<close> on an array of strings.\<close>

fun join :: "string \<Rightarrow> string list \<Rightarrow> string" where
  "join sep [] = []"
| "join sep [x] = x"
| "join sep (x # y # ys) = x @ sep @ join sep (y # ys)"

text \<open>Template interpolation of a non-negative integer: its decimal digits.\<close>

definition digit_char :: "nat \<Rightarrow> char" where
  "digit_char d = char_of (48 + d)"

fun show_nat :: "nat \<Rightarrow> string" where
  "show_nat n = (if n < 10 then [digit_char n] else show_nat (n div 10) @ [digit_char (n mod 10)])"

declare show_nat.simps [simp del]

text \<open>
  \<open>String.prototype.trim\<close>. Strings are lists of 8-bit characters here, and the white
  space of the language among them is the tab, the line feed, the vertical tab, the form
  feed, the carriage return, the space and the no-break space.
\<close>

definition is_space :: "char \<Rightarrow> bool" where
  "is_space c = (c \<in> set [CHR 0x09, CHR 0x0A, CHR 0x0B, CHR 0x0C, CHR 0x0D, CHR 0x20, CHR 0xA0])"

definition trim :: "string \<Rightarrow> string" where
  "trim s = rev (dropWhile is_space (rev (dropWhile is_space s)))"

text \<open>\<open>s.startsWith(p)\<close> and \<open>s.includes(p)\<close>.\<close>

definition startsWith :: "string \<Rightarrow> string \<Rightarrow> bool" where
  "startsWith s p = (take (length p) s = p)"

fun str_includes :: "string \<Rightarrow> string \<Rightarrow> bool" where
  "str_includes [] p = (p = [])"
| "str_includes (c # cs) p = (startsWith (c # cs) p \<or> str_includes cs p)"

text \<open>\<open>xs.slice(0, n)\<close>: a negative \<open>n\<close> counts from the end.\<close>

definition slice0 :: "'a list \<Rightarrow> int \<Rightarrow> 'a list" where
  "slice0 xs n = (if 0 \<le> n then take (nat n) xs else take (nat (int (length xs) + n)) xs)"

text \<open>\<open>str.split(' ')\<close>: the pieces between single spaces, empty pieces included.\<close>

fun split_space :: "string \<Rightarrow> string list" where
  "split_space [] = [[]]"
| "split_space (c # cs) =
     (if c = CHR '' '' then [] # split_space cs
      else (case split_space cs of [] \<Rightarrow> [[c]] | w # ws \<Rightarrow> (c # w) # ws))"


section \<open>The interest model: \<open>UserInterest.isCollectionDue\<close>\<close>

text \<open>
  \<open>lastCollectionDate\<close> is a \<open>Date\<close> or \<open>null\<close>; a date is its time value in
  milliseconds. \<open>now - lastCollectionDate\<close> is a whole number of milliseconds, and the
  quotient by \<open>1000 * 60 * 60\<close> is compared with 1, 24 and 168 as the source does.
\<close>

record user_interest =
  ui_id :: string
  ui_tags :: "string list"
  ui_weight :: int
  lastCollectionDate :: "int option"
  collectFrequency :: string
  enabled :: bool

definition isCollectionDue :: "int \<Rightarrow> user_interest \<Rightarrow> bool" where
  "isCollectionDue now i =
     (case (enabled i, lastCollectionDate i) of
        (True, Some lastDate) \<Rightarrow>
          let elapsed = now - lastDate;
              elapsedHours = real_of_int elapsed / (1000 * 60 * 60)
          in if collectFrequency i = ''hourly'' then elapsedHours \<ge> 1
             else if collectFrequency i = ''daily'' then elapsedHours \<ge> 24
             else if collectFrequency i = ''weekly'' then elapsedHours \<ge> 168
             else False
      | _ \<Rightarrow> enabled i)"

text \<open>The threshold of a frequency, in hours, as the data model states it.\<close>

definition thresholdHours :: "string \<Rightarrow> int option" where
  "thresholdHours f =
     (if f = ''hourly'' then Some 1 else if f = ''daily'' then Some 24
      else if f = ''weekly'' then Some 168 else None)"

definition msPerHour :: int where
  "msPerHour = 3600000"


section \<open>The result cache: \<open>SearchService.search\<close>\<close>

text \<open>
  What an adapter returns for one hit. Adapters set different subsets of the
  properties, and the orchestrator reads each of them with a default.
\<close>

record raw_item =
  i_id :: "string option"
  i_title :: "string option"
  i_summary :: "string option"
  i_content :: "string option"
  i_tags :: "string list option"
  i_createdAt :: "string option"
  i_date :: "string option"
  i_sourceName :: "string option"
  i_source :: "string option"
  i_sourceUrl :: "string option"
  i_url :: "string option"

text \<open>
  One cache slot per engine name. The timestamp is written as
  \<open>new Date().toISOString()\<close> and read back with \<open>new Date(...).getTime()\<close>, which
  gives the same millisecond count: the slot holds that count, \<open>None\<close> for \<open>null\<close>.
\<close>

record cache_slot =
  c_results :: "raw_item list"
  c_query :: string
  c_timestamp :: "int option"

record search_options =
  o_engine :: "string option"
  o_useCache :: "bool option"
  o_maxResults :: "nat option"

text \<open>
  The service: its configuration, the adapters by engine name (each with the
  \<open>maxResults\<close> the service sets on it before a call) and the cache.
  \<open>collect engine maxResults terms\<close> is the adapter's \<open>collectData\<close>.
\<close>

record search_service =
  cacheTtl :: int
  defaultMaxResults :: nat
  adapterMaxResults :: "string \<rightharpoonup> nat"
  cache :: "string \<rightharpoonup> cache_slot"

record search_response =
  sr_results :: "raw_item list"
  sr_query :: string
  sr_engine :: string
  sr_timestamp :: "int option"
  fromCache :: bool

definition emptySlot :: cache_slot where
  "emptySlot = \<lparr>c_results = [], c_query = [], c_timestamp = None\<rparr>"

text \<open>The constructor: \<open>options.cacheTtl || 300\<close>, \<open>options.defaultMaxResults || 10\<close>.\<close>

definition newSearchService :: "int option \<Rightarrow> nat option \<Rightarrow> search_service" where
  "newSearchService ttl dmax =
     (let d = (case dmax of None \<Rightarrow> 10 | Some n \<Rightarrow> if n = 0 then 10 else n)
      in \<lparr>cacheTtl = (case ttl of None \<Rightarrow> 300 | Some t \<Rightarrow> if t = 0 then 300 else t),
          defaultMaxResults = d,
          adapterMaxResults = [''duckduckgo'' \<mapsto> d],
          cache = [''duckduckgo'' \<mapsto> emptySlot, ''scraped'' \<mapsto> emptySlot]\<rparr>)"

text \<open>
  The test before the adapter is called: the slot that answers the query, when the cache
  may be used, the engine has a slot, the slot holds the query and a timestamp, and the
  timestamp is recent enough.
\<close>

definition cachedSlot :: "search_service \<Rightarrow> int \<Rightarrow> string \<Rightarrow> string \<Rightarrow> bool \<Rightarrow> cache_slot option" where
  "cachedSlot svc now engine q useCache =
     (if \<not> useCache then None
      else case cache svc engine of
             None \<Rightarrow> None
           | Some slot \<Rightarrow>
               if c_query slot \<noteq> q then None
               else (case c_timestamp slot of
                       None \<Rightarrow> None
                     | Some ts \<Rightarrow> if now - ts < cacheTtl svc * 1000 then Some slot else None))"

definition effectiveEngine :: "search_options \<Rightarrow> string" where
  "effectiveEngine opts = or_default (o_engine opts) ''duckduckgo''"

text \<open>
  \<open>options.maxResults || this.defaultMaxResults\<close>, then the value the adapter gets:
  the requested one when it is truthy and differs from the default, else the default.
\<close>

definition adapterLimit :: "search_service \<Rightarrow> search_options \<Rightarrow> nat" where
  "adapterLimit svc opts =
     (let maxResults = (case o_maxResults opts of None \<Rightarrow> defaultMaxResults svc
                        | Some n \<Rightarrow> if n = 0 then defaultMaxResults svc else n)
      in if maxResults \<noteq> 0 \<and> maxResults \<noteq> defaultMaxResults svc
         then maxResults else defaultMaxResults svc)"

text \<open>\<open>query.split(' ').filter(term => term.trim().length > 0)\<close>\<close>

definition splitQuery :: "string \<Rightarrow> string list" where
  "splitQuery q = filter (\<lambda>term. length (trim term) > 0) (split_space q)"

text \<open>
  \<open>search\<close>: \<open>now\<close> is \<open>Date.now()\<close> when the cache is tested, \<open>stamped\<close> the time of
  the \<open>new Date()\<close> that stamps a refreshed slot, after the adapter has returned. The
  service is returned with the result: the adapter's \<open>maxResults\<close> is set before the
  adapter is called, so it is changed even when the call throws.
\<close>

definition search ::
  "(string \<Rightarrow> nat \<Rightarrow> string list \<Rightarrow> js_error + raw_item list) \<Rightarrow> int \<Rightarrow> int \<Rightarrow>
   search_service \<Rightarrow> string \<Rightarrow> search_options \<Rightarrow> (js_error + search_response) \<times> search_service" where
  "search collect now stamped svc q opts =
     (let engine = effectiveEngine opts;
          useCache = (o_useCache opts \<noteq> Some False)
      in case cachedSlot svc now engine q useCache of
           Some slot \<Rightarrow>
             (Inr \<lparr>sr_results = c_results slot, sr_query = q, sr_engine = engine,
                   sr_timestamp = c_timestamp slot, fromCache = True\<rparr>, svc)
         | None \<Rightarrow>
             (case adapterMaxResults svc engine of
                None \<Rightarrow> (Inl (JsError (''Search engine \"'' @ engine @ ''\" not supported'')), svc)
              | Some _ \<Rightarrow>
                  let svc1 = svc\<lparr>adapterMaxResults :=
                                   (adapterMaxResults svc)(engine \<mapsto> adapterLimit svc opts)\<rparr>
                  in (case collect engine (adapterLimit svc opts) (splitQuery q) of
                        Inl error \<Rightarrow> (Inl error, svc1)
                      | Inr found \<Rightarrow>
                          (Inr \<lparr>sr_results = found, sr_query = q, sr_engine = engine,
                                sr_timestamp = Some stamped, fromCache = False\<rparr>,
                           svc1\<lparr>cache := (cache svc1)(engine \<mapsto>
                                  \<lparr>c_results = found, c_query = q, c_timestamp = Some stamped\<rparr>)\<rparr>))))"

text \<open>
  The cache condition in the words of the design: the slot of the engine holds exactly
  the requested query and a timestamp less than the TTL (in seconds) ago.
\<close>

definition slotFresh :: "search_service \<Rightarrow> int \<Rightarrow> string \<Rightarrow> string \<Rightarrow> bool" where
  "slotFresh svc now engine q =
     (case cache svc engine of
        None \<Rightarrow> False
      | Some slot \<Rightarrow>
          c_query slot = q \<and>
          (case c_timestamp slot of None \<Rightarrow> False | Some ts \<Rightarrow> now - ts < cacheTtl svc * 1000))"


text \<open>An adapter that finds nothing, and a service whose slot was filled at time 0.\<close>

definition silentAdapter :: "string \<Rightarrow> nat \<Rightarrow> string list \<Rightarrow> js_error + raw_item list" where
  "silentAdapter engine limit terms = Inr []"

definition warmService :: search_service where
  "warmService = (newSearchService None None)\<lparr>cache :=
     [''duckduckgo'' \<mapsto> \<lparr>c_results = [], c_query = ''x'', c_timestamp = Some 0\<rparr>,
      ''scraped'' \<mapsto> emptySlot]\<rparr>"

definition uncachedOptions :: search_options where
  "uncachedOptions = \<lparr>o_engine = None, o_useCache = Some False, o_maxResults = None\<rparr>"

definition defaultOptions :: search_options where
  "defaultOptions = \<lparr>o_engine = None, o_useCache = None, o_maxResults = None\<rparr>"


section \<open>The web-search adapter: \<open>DuckDuckGoAdapter\<close>\<close>

text \<open>
  The adapter talks to the network and to three libraries (the URL class and
  \<open>decodeURIComponent\<close>/\<open>encodeURIComponent\<close> of the platform, JSDOM, axios with
  cheerio). They are parameters of the model, each one failing where the library may
  throw; a request is taken to settle (with a reply, an error or a timeout).
\<close>

record search_result =
  s_title :: string
  s_url :: string
  s_snippet :: string

record url_parts =
  u_protocol :: string
  u_hostname :: string
  u_uddg :: "string option"

record title_elem =
  t_href :: "string option"
  t_text :: string

text \<open>
  One element matched by \<open>.result, .results_links\<close>: its first title link and the text
  of its first snippet element, when it has them.
\<close>

record result_element =
  e_titleElem :: "title_elem option"
  e_snippetText :: "string option"

datatype http_reply = Reply nat string | RequestError js_error | RequestTimeout

record http_response =
  h_contentType :: "string option"
  h_data :: string

record web =
  newURL :: "string \<Rightarrow> js_error + url_parts"
  decodeURIComponent :: "string \<Rightarrow> js_error + string"
  encodeURIComponent :: "string \<Rightarrow> string"
  jsdomResults :: "string \<Rightarrow> js_error + result_element list"
  httpsGet :: "string \<Rightarrow> string \<Rightarrow> int \<Rightarrow> http_reply"
  axiosGet :: "string \<Rightarrow> js_error + http_response"
  cheerioBodyText :: "string \<Rightarrow> js_error + string"

record ddg_adapter =
  d_maxResults :: int
  d_timeout :: int
  d_userAgent :: string
  d_allowedSources :: "string list"

record adapter_options =
  ao_maxResults :: int
  ao_language :: "string option"
  ao_sortBy :: "string option"
  ao_userAgent :: "string option"
  ao_timeout :: "int option"
  ao_apiKey :: "string option"
  ao_allowedSources :: "string list option"

definition defaultUserAgent :: string where
  "defaultUserAgent = ''Mozilla/5.0 (Windows NT 10.0; Win64; x64) AppleWebKit/537.36 (KHTML, like Gecko) Chrome/91.0.4472.124 Safari/537.36''"

definition newDuckDuckGoAdapter :: "adapter_options \<Rightarrow> ddg_adapter" where
  "newDuckDuckGoAdapter options =
     \<lparr>d_maxResults = (if ao_maxResults options = 0 then 5 else ao_maxResults options),
      d_timeout = (case ao_timeout options of None \<Rightarrow> 15000 | Some t \<Rightarrow> if t = 0 then 15000 else t),
      d_userAgent = or_default (ao_userAgent options) defaultUserAgent,
      d_allowedSources = (case ao_allowedSources options of None \<Rightarrow> [] | Some xs \<Rightarrow> xs)\<rparr>"

text \<open>The match of \<open>/[?&]uddg=([^&]+)/\<close>: its first capture group.\<close>

fun matchUddg :: "string \<Rightarrow> string option" where
  "matchUddg [] = None"
| "matchUddg (c # cs) =
     (if (c = CHR ''?'' \<or> c = CHR ''&'') \<and> startsWith cs ''uddg='' \<and>
         takeWhile (\<lambda>x. x \<noteq> CHR ''&'') (drop 5 cs) \<noteq> []
      then Some (takeWhile (\<lambda>x. x \<noteq> CHR ''&'') (drop 5 cs))
      else matchUddg cs)"

text \<open>The target of a result link: redirect links of the engine are unwrapped.\<close>

definition extractTarget :: "web \<Rightarrow> string \<Rightarrow> string" where
  "extractTarget w href =
     (if str_includes href ''/l/?uddg='' \<or> str_includes href ''&uddg='' then
        (case matchUddg href of
           None \<Rightarrow> href
         | Some m \<Rightarrow> (case decodeURIComponent w m of Inl extractionError \<Rightarrow> href | Inr u \<Rightarrow> u))
      else if startsWith href ''/'' then
        (let resultUrl = ''https://duckduckgo.com'' @ href
         in case newURL w resultUrl of
              Inl urlParseError \<Rightarrow> resultUrl
            | Inr parsedDdgUrl \<Rightarrow>
                if truthy (u_uddg parsedDdgUrl) then
                  (case decodeURIComponent w (or_default (u_uddg parsedDdgUrl) []) of
                     Inl urlParseError \<Rightarrow> resultUrl
                   | Inr u \<Rightarrow> u)
                else resultUrl)
      else href)"

definition isValidUrl :: "web \<Rightarrow> string \<Rightarrow> bool" where
  "isValidUrl w resultUrl =
     (case newURL w resultUrl of
        Inl e \<Rightarrow> False
      | Inr parsedUrl \<Rightarrow> u_protocol parsedUrl \<in> set [''http:'', ''https:''])"

fun parseElements :: "web \<Rightarrow> result_element list \<Rightarrow> search_result list \<Rightarrow> search_result list" where
  "parseElements w [] results = results"
| "parseElements w (element # rest) results =
     (case e_titleElem element of
        None \<Rightarrow> parseElements w rest results
      | Some titleElem \<Rightarrow>
          let resultUrl = extractTarget w (or_default (t_href titleElem) [])
          in if isValidUrl w resultUrl
             then parseElements w rest (results @
                    [\<lparr>s_title = trim (t_text titleElem), s_url = resultUrl,
                      s_snippet = (case e_snippetText element of None \<Rightarrow> [] | Some t \<Rightarrow> trim t)\<rparr>])
             else parseElements w rest results)"

text \<open>\<open>parseSearchResults\<close>: whatever the parser throws is caught, and the result is \<open>[]\<close>.\<close>

definition parseSearchResults :: "web \<Rightarrow> string \<Rightarrow> search_result list" where
  "parseSearchResults w html =
     (case jsdomResults w html of
        Inl error \<Rightarrow> []
      | Inr resultElements \<Rightarrow> parseElements w resultElements [])"

definition performSearch :: "web \<Rightarrow> ddg_adapter \<Rightarrow> string \<Rightarrow> js_error + search_result list" where
  "performSearch w a q =
     (let searchUrl = ''https://html.duckduckgo.com/html/?q='' @ encodeURIComponent w q
      in case httpsGet w searchUrl (d_userAgent a) (d_timeout a) of
           RequestError error \<Rightarrow> Inl error
         | RequestTimeout \<Rightarrow> Inl (JsError ''Search request timed out'')
         | Reply statusCode body \<Rightarrow>
             if statusCode \<noteq> 200
             then Inl (JsError (''DuckDuckGo search failed with status: '' @ show_nat statusCode))
             else Inr (parseSearchResults w body))"

text \<open>\<open>s.replace(pat, rep)\<close> with a string pattern: the first occurrence only.\<close>

fun replaceFirst :: "string \<Rightarrow> string \<Rightarrow> string \<Rightarrow> string" where
  "replaceFirst pat rep [] = (if pat = [] then rep else [])"
| "replaceFirst pat rep (c # cs) =
     (if startsWith (c # cs) pat then rep @ drop (length pat) (c # cs)
      else c # replaceFirst pat rep cs)"

text \<open>\<open>extractDomain\<close> returns \<open>null\<close> for an empty or unparsable URL.\<close>

definition extractDomain :: "web \<Rightarrow> string \<Rightarrow> string option" where
  "extractDomain w u =
     (if u = [] then None
      else case newURL w u of
             Inl error \<Rightarrow> None
           | Inr urlObj \<Rightarrow> Some (replaceFirst ''www.'' [] (u_hostname urlObj)))"

text \<open>\<open>.replace(/\s+/g, ' ')\<close>: every run of white space becomes one space.\<close>

fun collapseSpaces :: "bool \<Rightarrow> string \<Rightarrow> string" where
  "collapseSpaces inRun [] = []"
| "collapseSpaces inRun (c # cs) =
     (if is_space c then (if inRun then collapseSpaces True cs else CHR '' '' # collapseSpaces True cs)
      else c # collapseSpaces False cs)"

record page =
  p_content :: string
  p_summary :: string

definition fetchPage :: "web \<Rightarrow> string \<Rightarrow> js_error + page" where
  "fetchPage w u =
     (if u = [] then Inl (JsError ''URL is required'')
      else case axiosGet w u of
             Inl error \<Rightarrow> Inl error
           | Inr response \<Rightarrow>
               let contentType = or_default (h_contentType response) []
               in if \<not> str_includes contentType ''text/html''
                  then Inl (JsError (''Unsupported content type: '' @ contentType))
                  else case cheerioBodyText w (h_data response) of
                         Inl error \<Rightarrow> Inl error
                       | Inr text \<Rightarrow>
                           let bodyText = trim (collapseSpaces False (trim text))
                           in Inr \<lparr>p_content = bodyText,
                                   p_summary = take 200 bodyText @
                                     (if length bodyText > 200 then ''...'' else [])\<rparr>)"

text \<open>
  \<open>allowedSources.length === 0 || allowedSources.some(d => domain.includes(d))\<close>:
  with a non-empty list and the domain \<open>null\<close>, the call of \<open>includes\<close> throws.
\<close>

definition isAllowedDomain :: "ddg_adapter \<Rightarrow> string option \<Rightarrow> js_error + bool" where
  "isAllowedDomain a domain =
     (if d_allowedSources a = [] then Inr True
      else case domain of
             None \<Rightarrow> Inl (JsError ''Cannot read properties of null (reading 'includes')'')
           | Some d \<Rightarrow> Inr (list_ex (\<lambda>allowedDomain. str_includes d allowedDomain) (d_allowedSources a)))"

definition str_or :: "string \<Rightarrow> string \<Rightarrow> string" where
  "str_or s d = (if s = [] then d else s)"

definition emptyItem :: raw_item where
  "emptyItem = \<lparr>i_id = None, i_title = None, i_summary = None, i_content = None, i_tags = None,
     i_createdAt = None, i_date = None, i_sourceName = None, i_source = None,
     i_sourceUrl = None, i_url = None\<rparr>"

text \<open>The item pushed when the page was fetched, and the one pushed when it was not.\<close>

definition fetchedItem :: "string list \<Rightarrow> search_result \<Rightarrow> string option \<Rightarrow> page \<Rightarrow> raw_item" where
  "fetchedItem searchTerms result domain pageContent =
     emptyItem\<lparr>i_title := Some (str_or (s_title result) ''Untitled''),
               i_sourceUrl := Some (s_url result),
               i_summary := Some (str_or (s_snippet result) (p_summary pageContent)),
               i_content := Some (p_content pageContent),
               i_sourceName := Some (or_default domain ''Unknown source''),
               i_tags := Some (searchTerms @ [''duckduckgo''])\<rparr>"

definition fetchErrorItem :: "string list \<Rightarrow> search_result \<Rightarrow> string option \<Rightarrow> js_error \<Rightarrow> raw_item" where
  "fetchErrorItem searchTerms result domain fetchError =
     emptyItem\<lparr>i_title := Some (str_or (s_title result) ''Untitled''),
               i_sourceUrl := Some (s_url result),
               i_summary := Some (str_or (s_snippet result) ''Content unavailable''),
               i_content := Some (''Unable to retrieve content: '' @ message fetchError),
               i_sourceName := Some (or_default domain ''Unknown source''),
               i_tags := Some (searchTerms @ [''duckduckgo'', ''fetch_error''])\<rparr>"

text \<open>
  The body of the loop over the search results, for one result: the URLs seen so far
  after it, and what it pushes (\<open>None\<close> for a \<open>continue\<close>) or what it throws.
\<close>

definition processResult ::
  "web \<Rightarrow> ddg_adapter \<Rightarrow> string list \<Rightarrow> search_result \<Rightarrow> string list \<Rightarrow>
   string list \<times> (js_error + raw_item option)" where
  "processResult w a searchTerms result processedUrls =
     (if s_url result \<in> set processedUrls then (processedUrls, Inr None)
      else
        let processedUrls' = processedUrls @ [s_url result];
            domain = extractDomain w (s_url result)
        in (processedUrls',
            case isAllowedDomain a domain of
              Inl error \<Rightarrow> Inl error
            | Inr allowed \<Rightarrow>
                if \<not> allowed then Inr None
                else if s_url result = [] \<or> \<not> startsWith (s_url result) ''http'' then Inr None
                else (case fetchPage w (s_url result) of
                        Inr pageContent \<Rightarrow> Inr (Some (fetchedItem searchTerms result domain pageContent))
                      | Inl fetchError \<Rightarrow> Inr (Some (fetchErrorItem searchTerms result domain fetchError)))))"

text \<open>The loop: an error thrown for one result is caught and the loop goes on.\<close>

fun processResults ::
  "web \<Rightarrow> ddg_adapter \<Rightarrow> string list \<Rightarrow> search_result list \<Rightarrow> string list \<Rightarrow>
   raw_item list \<Rightarrow> raw_item list" where
  "processResults w a searchTerms [] processedUrls contentItems = contentItems"
| "processResults w a searchTerms (result # rest) processedUrls contentItems =
     (case processResult w a searchTerms result processedUrls of
        (processedUrls', Inl error) \<Rightarrow> processResults w a searchTerms rest processedUrls' contentItems
      | (processedUrls', Inr None) \<Rightarrow> processResults w a searchTerms rest processedUrls' contentItems
      | (processedUrls', Inr (Some item)) \<Rightarrow>
          processResults w a searchTerms rest processedUrls' (contentItems @ [item]))"

text \<open>
  \<open>collectData\<close>: the argument is \<open>None\<close> for a missing (\<open>undefined\<close>, \<open>null\<close>) list of
  search terms.
\<close>

definition collectData :: "web \<Rightarrow> ddg_adapter \<Rightarrow> string list option \<Rightarrow> js_error + raw_item list" where
  "collectData w a searchTerms =
     (case searchTerms of
        None \<Rightarrow> Inr []
      | Some terms \<Rightarrow>
          if terms = [] then Inr []
          else try_catch
                 (case performSearch w a (join '' '' terms) of
                    Inl error \<Rightarrow> Inl error
                  | Inr searchResults \<Rightarrow>
                      if searchResults = [] then Inr []
                      else Inr (processResults w a terms
                                  (slice0 searchResults (d_maxResults a)) [] []))
                 (\<lambda>error. Inr []))"


section \<open>The collection orchestrator: \<open>CollectionService\<close>\<close>

text \<open>A value of which the code asks \<open>Array.isArray\<close>.\<close>

datatype 'a js_array = NotArray | Arr "'a list"

definition nonEmptyArray :: "'a js_array \<Rightarrow> bool" where
  "nonEmptyArray v = (case v of NotArray \<Rightarrow> False | Arr xs \<Rightarrow> length xs > 0)"

definition elements :: "'a js_array \<Rightarrow> 'a list" where
  "elements v = (case v of NotArray \<Rightarrow> [] | Arr xs \<Rightarrow> xs)"

text \<open>
  An adapter instance, as the orchestrator sees it: the methods it may have. A module
  exports a class (its constructor may throw) or something that is not a function,
  used as the adapter itself when it is truthy.
\<close>

record adapter =
  fetchContent :: "(string list \<Rightarrow> js_error + raw_item js_array) option"
  collectDataMethod :: "(string list \<Rightarrow> js_error + raw_item js_array) option"
  performSearchMethod :: "(string \<Rightarrow> js_error + search_result js_array) option"

datatype adapter_module =
  ClassExport "adapter_options \<Rightarrow> js_error + adapter"
| ObjectExport "adapter option"

record api_keys =
  newsApiKey :: "string option"
  githubApiKey :: "string option"

record config =
  cfg_sources :: "string list"
  cfg_keywords :: "string list"
  cfg_maxResults :: int
  cfg_processingLevel :: string
  saveToKnowledgeBooks :: bool

record result_item =
  r_id :: string
  r_title :: string
  r_summary :: string
  r_content :: string
  r_tags :: "string list"
  r_createdAt :: string
  r_date :: string
  r_sourceName :: string
  r_sourceUrl :: string
  r_source :: string
  r_url :: string
  r_isError :: bool
  r_searchResults :: "search_result list option"
  r_collectionId :: string

record collection_state =
  running :: bool
  progress :: nat
  currentSource :: string
  itemsCollected :: nat
  startTime :: "string option"
  processingLevel :: string
  sources :: "string list"
  stateKeywords :: "string list"
  maxResults :: int
  results :: "result_item list"

text \<open>A stored record (a "knowledge book"), as \<open>JSON.parse\<close> gives it back.\<close>

record book =
  b_id :: string
  b_title :: string
  b_summary :: string
  b_content :: string
  b_tags :: "string list"
  b_date :: "string option"
  b_createdAt :: "string option"
  b_source :: string
  b_sourceUrl :: string
  b_url :: string
  b_isError :: bool
  b_collectionId :: string
  b_collectionDate :: "string option"

record history_entry =
  h_id :: string
  h_date :: string
  h_displayDate :: string
  h_sources :: "string list"
  h_itemCount :: nat
  h_processingLevel :: string
  h_filename :: string
  h_booksFile :: string

text \<open>
  The data directory. \<open>entries\<close> is its listing, in the order \<open>readdir\<close> gives;
  \<open>contents\<close> maps a path to what \<open>JSON.parse\<close> makes of the file's text. The four
  error fields say which operations fail.
\<close>

datatype file_data = Corrupt js_error | NonArray | Books "book list"

record filesystem =
  entries :: "string list"
  contents :: "string \<rightharpoonup> file_data"
  mkdirError :: "js_error option"
  readdirError :: "js_error option"
  readError :: "string \<Rightarrow> js_error option"
  writeError :: "string \<Rightarrow> js_error option"

text \<open>
  What the service is given and what it cannot compute by itself: the module loader and
  the adapter files of the source tree, the API keys, \<open>uuidv4()\<close> and \<open>new Date()\<close>
  (the \<open>n\<close>-th call of either gives the value at \<open>n\<close>), the date formatter, date parsing
  (\<open>None\<close> for an invalid date), \<open>encodeURIComponent\<close>, and
  \<open>Math.floor((i / n) * 100)\<close>, which the source computes in floating point.
\<close>

record env =
  rootDir :: string
  dataDir :: string
  knowledgeBooksFile :: string
  adapterFileExists :: "string \<Rightarrow> bool"
  requireModule :: "string \<Rightarrow> js_error + adapter_module"
  loadApiKeys :: "(js_error + api_keys) option"
  uuidv4 :: "nat \<Rightarrow> string"
  toISOString :: "nat \<Rightarrow> string"
  formatDate :: "nat \<Rightarrow> string"
  parseDate :: "string \<Rightarrow> int option"
  encodeURI :: "string \<Rightarrow> string"
  floorPercent :: "nat \<Rightarrow> nat \<Rightarrow> nat"

record service =
  state :: collection_state
  collectionHistory :: "history_entry list"
  clock :: nat
  disk :: filesystem

definition initialState :: collection_state where
  "initialState = \<lparr>running = False, progress = 0, currentSource = [], itemsCollected = 0,
     startTime = None, processingLevel = ''basic'', sources = [], stateKeywords = [],
     maxResults = 10, results = []\<rparr>"

definition newCollectionService :: "filesystem \<Rightarrow> service" where
  "newCollectionService fs = \<lparr>state = initialState, collectionHistory = [], clock = 0, disk = fs\<rparr>"

text \<open>ASCII \<open>toUpperCase\<close> and \<open>toLowerCase\<close>.\<close>

definition toUpperChar :: "char \<Rightarrow> char" where
  "toUpperChar c = (let n = (of_char c :: nat) in if 97 \<le> n \<and> n \<le> 122 then char_of (n - 32) else c)"

definition toLowerChar :: "char \<Rightarrow> char" where
  "toLowerChar c = (let n = (of_char c :: nat) in if 65 \<le> n \<and> n \<le> 90 then char_of (n + 32) else c)"

definition toLowerCase :: "string \<Rightarrow> string" where
  "toLowerCase s = map toLowerChar s"

definition capitalize :: "string \<Rightarrow> string" where
  "capitalize s = (case s of [] \<Rightarrow> [] | c # cs \<Rightarrow> toUpperChar c # cs)"

definition adapterFile :: "env \<Rightarrow> string \<Rightarrow> string" where
  "adapterFile e name = rootDir e @ ''/src/core/sourceAdapters/'' @ name"

definition resolveAdapterPath :: "env \<Rightarrow> string \<Rightarrow> string" where
  "resolveAdapterPath e source =
     (let p1 = adapterFile e (capitalize source @ ''Adapter.js'');
          p2 = (if \<not> adapterFileExists e p1
                then adapterFile e (toLowerCase source @ ''Adapter.js'') else p1)
      in if \<not> adapterFileExists e p2
         then (if toLowerCase source = ''duckduckgo''
               then adapterFile e ''duckDuckGoAdapter.js''
               else adapterFile e (source @ ''Adapter.js''))
         else p2)"

definition adapterOptions :: "config \<Rightarrow> api_keys \<Rightarrow> string \<Rightarrow> adapter_options" where
  "adapterOptions cfg apiKeys source =
     (let s = toLowerCase source
      in \<lparr>ao_maxResults = cfg_maxResults cfg,
          ao_language = (if s = ''wikipedia'' then Some ''en'' else None),
          ao_sortBy = (if s = ''arxiv'' then Some ''relevance'' else None),
          ao_userAgent = (if s = ''duckduckgo'' then Some defaultUserAgent else None),
          ao_timeout = (if s = ''duckduckgo'' then Some 15000 else None),
          ao_apiKey = (if s = ''github'' then githubApiKey apiKeys
                       else if s = ''newsapi'' then newsApiKey apiKeys else None),
          ao_allowedSources = None\<rparr>)"

text \<open>\<open>keywords.length > 0 ? keywords.filter(k => k && k.trim()) : [fallback]\<close>\<close>

definition keywordsOr :: "string list \<Rightarrow> string \<Rightarrow> string list" where
  "keywordsOr kws fallback =
     (if length kws > 0 then filter (\<lambda>k. k \<noteq> [] \<and> trim k \<noteq> []) kws else [fallback])"

text \<open>
  The part of the inner \<open>try\<close> up to the adapter's answer: the adapter is resolved,
  constructed and called. \<open>NoAdapter\<close> is a falsy export.
\<close>

datatype invocation = NoAdapter | Invoked "raw_item js_array" "string list"

definition invokeAdapter :: "env \<Rightarrow> config \<Rightarrow> api_keys \<Rightarrow> string \<Rightarrow> js_error + invocation" where
  "invokeAdapter e cfg apiKeys source =
     (case requireModule e (resolveAdapterPath e source) of
        Inl error \<Rightarrow> Inl error
      | Inr AdapterClass \<Rightarrow>
          (case (case AdapterClass of
                   ClassExport newAdapter \<Rightarrow>
                     (case newAdapter (adapterOptions cfg apiKeys source) of
                        Inl error \<Rightarrow> Inl error | Inr a \<Rightarrow> Inr (Some a))
                 | ObjectExport a \<Rightarrow> Inr a) of
             Inl error \<Rightarrow> Inl error
           | Inr None \<Rightarrow> Inr NoAdapter
           | Inr (Some sourceAdapter) \<Rightarrow>
               if toLowerCase source = ''newsapi'' \<and> \<not> truthy (newsApiKey apiKeys)
               then Inl (JsError ''NewsAPI requires an API key. Please add it in the API Keys settings page.'')
               else
                 let keywordsToUse = keywordsOr (cfg_keywords cfg) ''general''
                 in (case fetchContent sourceAdapter of
                       Some f \<Rightarrow>
                         (case f keywordsToUse of
                            Inl error \<Rightarrow> Inl error
                          | Inr adapterResults \<Rightarrow> Inr (Invoked adapterResults keywordsToUse))
                     | None \<Rightarrow>
                         (case collectDataMethod sourceAdapter of
                            Some g \<Rightarrow>
                              (case g keywordsToUse of
                                 Inl error \<Rightarrow> Inl error
                               | Inr adapterResults \<Rightarrow> Inr (Invoked adapterResults keywordsToUse))
                          | None \<Rightarrow> Inr (Invoked (Arr []) keywordsToUse)))))"

text \<open>\<open>setState({results: updatedResults, itemsCollected: updatedResults.length})\<close>\<close>

definition setResults :: "service \<Rightarrow> result_item list \<Rightarrow> service" where
  "setResults svc updatedResults =
     svc\<lparr>state := (state svc)\<lparr>results := updatedResults, itemsCollected := length updatedResults\<rparr>\<rparr>"

definition troubleshooting :: string where
  "troubleshooting = nl @ nl @ ''To troubleshoot this issue:'' @ nl @ ''- Check your network connection'' @ nl @
     ''- Verify API credentials if applicable'' @ nl @ ''- Try different keywords'' @ nl @ ''- Try again later''"

text \<open>\<open>createErrorItem\<close>, called when the clock is at \<open>t\<close>: it reads the time, then an id.\<close>

definition createErrorItem :: "env \<Rightarrow> nat \<Rightarrow> string \<Rightarrow> string list \<Rightarrow> string \<Rightarrow> string \<Rightarrow> result_item" where
  "createErrorItem e t source kws errorMessage collectionId =
     (let timestamp = toISOString e t;
          keywordsStr = join '', '' kws
      in \<lparr>r_id = uuidv4 e (Suc t),
          r_title = ''Error retrieving data from '' @ source,
          r_summary = ''Could not retrieve information from '' @ source @ '' for keywords: '' @ keywordsStr,
          r_content = errorMessage @ nl @ nl @ ''Tried to collect data at: '' @ timestamp @ nl @
                      ''Keywords: '' @ keywordsStr @ troubleshooting,
          r_tags = [''error'', source] @ kws,
          r_createdAt = timestamp,
          r_date = timestamp,
          r_sourceName = source,
          r_sourceUrl = [],
          r_source = source,
          r_url = [],
          r_isError = True,
          r_searchResults = None,
          r_collectionId = collectionId\<rparr>)"

definition appendError :: "env \<Rightarrow> string \<Rightarrow> string list \<Rightarrow> string \<Rightarrow> string \<Rightarrow> service \<Rightarrow> service" where
  "appendError e source kws errorMessage collectionId svc =
     (let errorItem = createErrorItem e (clock svc) source kws errorMessage collectionId
      in (setResults svc (results (state svc) @ [errorItem]))\<lparr>clock := clock svc + 2\<rparr>)"

text \<open>\<open>x || new Date().toISOString()\<close> and \<open>x || uuidv4()\<close>: the clock moves when \<open>x\<close> is falsy.\<close>

definition orFresh :: "string option \<Rightarrow> (nat \<Rightarrow> string) \<Rightarrow> nat \<Rightarrow> string \<times> nat" where
  "orFresh v fresh t = (if truthy v then (or_default v [], t) else (fresh t, Suc t))"

definition summaryOf :: "raw_item \<Rightarrow> string" where
  "summaryOf item =
     or_default (i_summary item)
       (if truthy (i_content item) then take 200 (or_default (i_content item) []) @ ''...''
        else ''No summary available'')"

text \<open>The record made of one item of the adapter's first answer.\<close>

definition processedItem ::
  "env \<Rightarrow> string \<Rightarrow> string list \<Rightarrow> string \<Rightarrow> raw_item \<Rightarrow> nat \<Rightarrow> result_item \<times> nat" where
  "processedItem e source keywordsToUse collectionId item t =
     (let (itemId, t1) = orFresh (i_id item) (uuidv4 e) t;
          (created, t2) = orFresh (js_or (i_createdAt item) (i_date item)) (toISOString e) t1;
          (dated, t3) = orFresh (js_or (i_date item) (i_createdAt item)) (toISOString e) t2
      in (\<lparr>r_id = itemId,
           r_title = or_default (i_title item) (''Information from '' @ source),
           r_summary = summaryOf item,
           r_content = or_default (js_or (i_content item) (i_summary item)) ''No content available'',
           r_tags = (case i_tags item of None \<Rightarrow> keywordsToUse @ [source] | Some ts \<Rightarrow> ts),
           r_createdAt = created,
           r_date = dated,
           r_sourceName = or_default (js_or (i_sourceName item) (i_source item)) source,
           r_sourceUrl = or_default (js_or (i_sourceUrl item) (i_url item)) [],
           r_source = or_default (js_or (i_source item) (i_sourceName item)) source,
           r_url = or_default (js_or (i_url item) (i_sourceUrl item)) [],
           r_isError = False,
           r_searchResults = None,
           r_collectionId = collectionId\<rparr>, t3))"

definition duckQueryUrl :: "env \<Rightarrow> string \<Rightarrow> string" where
  "duckQueryUrl e q = ''https://duckduckgo.com/?q='' @ encodeURI e q"

text \<open>The record made of one item of the retry's answer.\<close>

definition retriedItem ::
  "env \<Rightarrow> string list \<Rightarrow> string \<Rightarrow> raw_item \<Rightarrow> nat \<Rightarrow> result_item \<times> nat" where
  "retriedItem e keywordsToUse collectionId item t =
     (let (itemId, t1) = orFresh (i_id item) (uuidv4 e) t;
          (created, t2) = orFresh (js_or (i_createdAt item) (i_date item)) (toISOString e) t1;
          (dated, t3) = orFresh (js_or (i_date item) (i_createdAt item)) (toISOString e) t2
      in (\<lparr>r_id = itemId,
           r_title = or_default (i_title item) ''Search results from DuckDuckGo'',
           r_summary = summaryOf item,
           r_content = or_default (js_or (i_content item) (i_summary item)) ''No content available'',
           r_tags = (case i_tags item of None \<Rightarrow> keywordsToUse @ [''duckduckgo''] | Some ts \<Rightarrow> ts),
           r_createdAt = created,
           r_date = dated,
           r_sourceName = or_default (i_sourceName item) ''DuckDuckGo'',
           r_sourceUrl = or_default (js_or (i_sourceUrl item) (i_url item))
                           (duckQueryUrl e (join '' '' keywordsToUse)),
           r_source = or_default (i_source item) ''duckduckgo'',
           r_url = or_default (js_or (i_url item) (i_sourceUrl item))
                     (duckQueryUrl e (join '' '' keywordsToUse)),
           r_isError = False,
           r_searchResults = None,
           r_collectionId = collectionId\<rparr>, t3))"

text \<open>\<open>items.map(f)\<close> for an \<open>f\<close> that reads the clock.\<close>

fun mapClock :: "('a \<Rightarrow> nat \<Rightarrow> 'b \<times> nat) \<Rightarrow> 'a list \<Rightarrow> nat \<Rightarrow> 'b list \<times> nat" where
  "mapClock f [] t = ([], t)"
| "mapClock f (x # xs) t =
     (let (y, t1) = f x t; (ys, t2) = mapClock f xs t1 in (y # ys, t2))"

definition appendItems :: "service \<Rightarrow> result_item list \<times> nat \<Rightarrow> service" where
  "appendItems svc processed =
     (setResults svc (results (state svc) @ fst processed))\<lparr>clock := snd processed\<rparr>"

text \<open>The list of links of the search-only record.\<close>

definition linkLine :: "nat \<times> search_result \<Rightarrow> string" where
  "linkLine p = (case p of (index, result) \<Rightarrow>
     show_nat (index + 1) @ ''. ['' @ s_title result @ '']('' @ s_url result @ '')'' @ nl @
     ''   '' @ s_snippet result)"

definition linksContent :: "search_result list \<Rightarrow> string" where
  "linksContent topResults = join (nl @ nl) (map linkLine (enumerate 0 topResults))"

definition searchItem ::
  "env \<Rightarrow> nat \<Rightarrow> string list \<Rightarrow> search_result list \<Rightarrow> string \<Rightarrow> result_item" where
  "searchItem e t keywordsToUse searchResults collectionId =
     (let q = join '' '' keywordsToUse;
          topResults = take 5 searchResults
      in \<lparr>r_id = uuidv4 e t,
          r_title = ''DuckDuckGo search results for: '' @ q,
          r_summary = ''Found '' @ show_nat (length searchResults) @ '' results for \"'' @ q @
                      ''\". Here are the top '' @ show_nat (length topResults) @ '' matches:'',
          r_content = ''# Search results for \"'' @ q @ ''\"'' @ nl @ nl @ linksContent topResults @ nl @ nl @
                      ''These links were found using DuckDuckGo search. Click on any link to view the actual page.'',
          r_tags = keywordsToUse @ [''duckduckgo'', ''search-results''],
          r_createdAt = toISOString e (t + 1),
          r_date = toISOString e (t + 2),
          r_sourceName = ''DuckDuckGo Search'',
          r_sourceUrl = (case topResults of [] \<Rightarrow> duckQueryUrl e q | first # _ \<Rightarrow> s_url first),
          r_source = ''duckduckgo'',
          r_url = (case topResults of [] \<Rightarrow> duckQueryUrl e q | first # _ \<Rightarrow> s_url first),
          r_isError = False,
          r_searchResults = Some topResults,
          r_collectionId = collectionId\<rparr>)"

text \<open>The third tier: the search-only capability, with its own \<open>try\<close>/\<open>catch\<close>.\<close>

definition searchOnly ::
  "env \<Rightarrow> adapter \<Rightarrow> string \<Rightarrow> string list \<Rightarrow> string \<Rightarrow> service \<Rightarrow> service" where
  "searchOnly e duckAdapter source keywordsToUse collectionId svc =
     (case (case performSearchMethod duckAdapter of
              None \<Rightarrow> Inl (JsError ''duckAdapter.performSearch is not a function'')
            | Some f \<Rightarrow> f (join '' '' keywordsToUse)) of
        Inl searchError \<Rightarrow>
          appendError e source keywordsToUse
            (''Error during DuckDuckGo search: '' @ message searchError) collectionId svc
      | Inr searchResults \<Rightarrow>
          if nonEmptyArray searchResults
          then (setResults svc (results (state svc) @
                  [searchItem e (clock svc) keywordsToUse (elements searchResults) collectionId]))
               \<lparr>clock := clock svc + 3\<rparr>
          else appendError e source keywordsToUse
                 ''DuckDuckGo search API returned no results. DuckDuckGo may be restricting automated queries.''
                 collectionId svc)"

definition retryOptions :: "int \<Rightarrow> adapter_options" where
  "retryOptions maxRes =
     \<lparr>ao_maxResults = maxRes, ao_language = None, ao_sortBy = None,
      ao_userAgent = Some ''Mozilla/5.0 (Windows NT 10.0; Win64; x64) AppleWebKit/537.36 (KHTML, like Gecko) Chrome/96.0.4664.110 Safari/537.36'',
      ao_timeout = Some 30000, ao_apiKey = None, ao_allowedSources = None\<rparr>"

text \<open>\<open>handleDuckDuckGoFallback\<close>: the retry, then the search-only tier.\<close>

definition handleDuckDuckGoFallback ::
  "env \<Rightarrow> string \<Rightarrow> string list \<Rightarrow> int \<Rightarrow> string \<Rightarrow> service \<Rightarrow> service" where
  "handleDuckDuckGoFallback e source kws maxRes collectionId svc =
     (case (case requireModule e (adapterFile e ''duckDuckGoAdapter.js'') of
              Inl duckError \<Rightarrow> Inl duckError
            | Inr DuckDuckGoAdapter \<Rightarrow>
                (case (case DuckDuckGoAdapter of
                         ClassExport newAdapter \<Rightarrow> newAdapter (retryOptions maxRes)
                       | ObjectExport _ \<Rightarrow> Inl (JsError ''DuckDuckGoAdapter is not a constructor'')) of
                   Inl duckError \<Rightarrow> Inl duckError
                 | Inr duckAdapter \<Rightarrow>
                     let keywordsToUse = keywordsOr kws ''artificial intelligence''
                     in (case (case collectDataMethod duckAdapter of
                                 None \<Rightarrow> Inl (JsError ''duckAdapter.collectData is not a function'')
                               | Some g \<Rightarrow> g keywordsToUse) of
                           Inl duckError \<Rightarrow> Inl duckError
                         | Inr duckResults \<Rightarrow>
                             if nonEmptyArray duckResults
                             then Inr (appendItems svc
                                    (mapClock (retriedItem e keywordsToUse collectionId)
                                       (elements duckResults) (clock svc)))
                             else Inr (searchOnly e duckAdapter source keywordsToUse collectionId svc)))) of
        Inl duckError \<Rightarrow>
          appendError e source kws (''Error connecting to DuckDuckGo: '' @ message duckError) collectionId svc
      | Inr svc' \<Rightarrow> svc')"

text \<open>
  The body of the loop over the sources, for the source at index \<open>i\<close>. The inner
  \<open>catch\<close> takes every error of the inner \<open>try\<close> and, reading the message of an
  error, throws nothing itself, so the outer \<open>catch\<close> has nothing to take.
\<close>

definition processSource ::
  "env \<Rightarrow> config \<Rightarrow> string \<Rightarrow> api_keys \<Rightarrow> nat \<Rightarrow> string \<Rightarrow> service \<Rightarrow> service" where
  "processSource e cfg collectionId apiKeys i source svc0 =
     (let svc = svc0\<lparr>state := (state svc0)\<lparr>currentSource := source,
                   progress := floorPercent e i (length (cfg_sources cfg))\<rparr>\<rparr>
      in case invokeAdapter e cfg apiKeys source of
           Inr NoAdapter \<Rightarrow> svc
         | Inr (Invoked adapterResults keywordsToUse) \<Rightarrow>
             if nonEmptyArray adapterResults
             then appendItems svc
                    (mapClock (processedItem e source keywordsToUse collectionId)
                       (elements adapterResults) (clock svc))
             else if toLowerCase source = ''duckduckgo''
             then handleDuckDuckGoFallback e source (cfg_keywords cfg) (cfg_maxResults cfg) collectionId svc
             else appendError e source (cfg_keywords cfg)
                    (''No results found from '' @ source @ '' for the specified keywords.'') collectionId svc
         | Inl error \<Rightarrow>
             appendError e source (cfg_keywords cfg)
               (''Error using '' @ source @ '' adapter: '' @ message error) collectionId svc)"

fun processSources ::
  "env \<Rightarrow> config \<Rightarrow> string \<Rightarrow> api_keys \<Rightarrow> nat \<Rightarrow> string list \<Rightarrow> service \<Rightarrow> service" where
  "processSources e cfg collectionId apiKeys i [] svc = svc"
| "processSources e cfg collectionId apiKeys i (source # rest) svc =
     processSources e cfg collectionId apiKeys (Suc i) rest
       (processSource e cfg collectionId apiKeys i source svc)"


section \<open>The knowledge store\<close>

definition endsWith :: "string \<Rightarrow> string \<Rightarrow> bool" where
  "endsWith s p = startsWith (rev s) (rev p)"

definition isPartitionName :: "string \<Rightarrow> bool" where
  "isPartitionName file = (startsWith file ''knowledge-books-'' \<and> endsWith file ''.json'')"

definition joinPath :: "string \<Rightarrow> string \<Rightarrow> string" where
  "joinPath dir name = dir @ ''/'' @ name"

definition basename :: "string \<Rightarrow> string" where
  "basename p = rev (takeWhile (\<lambda>c. c \<noteq> CHR ''/'') (rev p))"

definition existsSync :: "filesystem \<Rightarrow> string \<Rightarrow> bool" where
  "existsSync fs p = (contents fs p \<noteq> None)"

definition readFile :: "filesystem \<Rightarrow> string \<Rightarrow> js_error + file_data" where
  "readFile fs p =
     (case readError fs p of
        Some error \<Rightarrow> Inl error
      | None \<Rightarrow>
          (case contents fs p of
             None \<Rightarrow> Inl (JsError (''ENOENT: no such file or directory, open '' @ p))
           | Some d \<Rightarrow> Inr d))"

text \<open>
  \<open>writeFile\<close>: a new file of the data directory is listed after the files that were
  there. A write that fails is taken to leave the directory as it was.
\<close>

definition writeFile :: "env \<Rightarrow> filesystem \<Rightarrow> string \<Rightarrow> file_data \<Rightarrow> js_error + filesystem" where
  "writeFile e fs p d =
     (case writeError fs p of
        Some error \<Rightarrow> Inl error
      | None \<Rightarrow>
          Inr (fs\<lparr>contents := (contents fs)(p \<mapsto> d),
                  entries := (if p = joinPath (dataDir e) (basename p) \<and> basename p \<notin> set (entries fs)
                              then entries fs @ [basename p] else entries fs)\<rparr>))"

text \<open>
  \<open>Array.prototype.sort\<close> with a comparator. The sort of the language is stable, and for
  a comparator that orders the elements consistently its result is the stable sorting
  of the array, which insertion computes. The comparators of the store return \<open>NaN\<close>
  (\<open>None\<close>) when a date is invalid, which \<open>sort\<close> reads as 0; the order of such an
  array is left to the engine, and the model stays with insertion.
\<close>

definition positive :: "int option \<Rightarrow> bool" where
  "positive v = (case v of None \<Rightarrow> False | Some d \<Rightarrow> d > 0)"

fun insertSorted :: "('a \<Rightarrow> 'a \<Rightarrow> int option) \<Rightarrow> 'a \<Rightarrow> 'a list \<Rightarrow> 'a list" where
  "insertSorted cmp x [] = [x]"
| "insertSorted cmp x (y # ys) =
     (if positive (cmp x y) then y # insertSorted cmp x ys else x # y # ys)"

fun jsSort :: "('a \<Rightarrow> 'a \<Rightarrow> int option) \<Rightarrow> 'a list \<Rightarrow> 'a list" where
  "jsSort cmp [] = []"
| "jsSort cmp (x # xs) = insertSorted cmp x (jsSort cmp xs)"

text \<open>\<open>dateB - dateA\<close>\<close>

definition dateDifference :: "int option \<Rightarrow> int option \<Rightarrow> int option" where
  "dateDifference dateA dateB =
     (case dateA of None \<Rightarrow> None
      | Some x \<Rightarrow> (case dateB of None \<Rightarrow> None | Some y \<Rightarrow> Some (y - x)))"

text \<open>\<open>new Date(a.date)\<close>, the key of the sort in \<open>saveCollectionResults\<close>.\<close>

definition savedDate :: "env \<Rightarrow> book \<Rightarrow> int option" where
  "savedDate e a = (case b_date a of None \<Rightarrow> None | Some s \<Rightarrow> parseDate e s)"


text \<open>The loop of \<open>saveCollectionResults\<close> over the dated files: their records, one after the other.\<close>

fun readDatedFiles :: "env \<Rightarrow> filesystem \<Rightarrow> string list \<Rightarrow> book list \<Rightarrow> book list" where
  "readDatedFiles e fs [] allKnowledgeBooks = allKnowledgeBooks"
| "readDatedFiles e fs (file # rest) allKnowledgeBooks =
     (case readFile fs (joinPath (dataDir e) file) of
        Inl failure \<Rightarrow> readDatedFiles e fs rest allKnowledgeBooks
      | Inr (Corrupt failure) \<Rightarrow> readDatedFiles e fs rest allKnowledgeBooks
      | Inr NonArray \<Rightarrow> readDatedFiles e fs rest allKnowledgeBooks
      | Inr (Books booksData) \<Rightarrow> readDatedFiles e fs rest (allKnowledgeBooks @ booksData))"

text \<open>The records already stored, as \<open>saveCollectionResults\<close> collects them.\<close>

definition existingBooks :: "env \<Rightarrow> filesystem \<Rightarrow> book list" where
  "existingBooks e fs =
     (case readdirError fs of
        Some error \<Rightarrow> []
      | None \<Rightarrow>
          let allKnowledgeBooks = readDatedFiles e fs (filter isPartitionName (entries fs)) []
          in if existsSync fs (knowledgeBooksFile e) then
               (case readFile fs (knowledgeBooksFile e) of
                  Inr (Books mainBooks) \<Rightarrow>
                    allKnowledgeBooks @
                    filter (\<lambda>b. b_id b \<notin> set (map b_id allKnowledgeBooks)) mainBooks
                | _ \<Rightarrow> allKnowledgeBooks)
             else allKnowledgeBooks)"

definition toBook :: "string \<Rightarrow> string \<Rightarrow> result_item \<Rightarrow> book" where
  "toBook collectionId formattedDate item =
     \<lparr>b_id = r_id item,
      b_title = r_title item,
      b_summary = r_summary item,
      b_content = r_content item,
      b_tags = r_tags item,
      b_date = Some (str_or (r_createdAt item) (r_date item)),
      b_createdAt = None,
      b_source = str_or (r_sourceName item) (r_source item),
      b_sourceUrl = str_or (r_sourceUrl item) (r_url item),
      b_url = str_or (r_url item) (r_sourceUrl item),
      b_isError = r_isError item,
      b_collectionId = collectionId,
      b_collectionDate = Some formattedDate\<rparr>"

text \<open>The merged index that \<open>saveCollectionResults\<close> writes.\<close>

definition mergedIndex :: "env \<Rightarrow> filesystem \<Rightarrow> book list \<Rightarrow> book list" where
  "mergedIndex e fs newBooks =
     jsSort (\<lambda>a b. dateDifference (savedDate e a) (savedDate e b)) (existingBooks e fs @ newBooks)"

text \<open>
  \<open>saveCollectionResults\<close>: the error it catches is logged and thrown again.
\<close>

definition saveCollectionResults :: "env \<Rightarrow> string \<Rightarrow> service \<Rightarrow> (js_error + string) \<times> service" where
  "saveCollectionResults e collectionId svc =
     (case mkdirError (disk svc) of
        Some error \<Rightarrow> (Inl error, svc)
      | None \<Rightarrow>
          let now = clock svc;
              formattedDate = formatDate e now;
              svc1 = svc\<lparr>clock := Suc now\<rparr>;
              newBooks = map (toBook collectionId formattedDate) (results (state svc));
              allKnowledgeBooks = mergedIndex e (disk svc) newBooks;
              datedBooksFile = joinPath (dataDir e) (''knowledge-books-'' @ formattedDate @ ''.json'')
          in (case writeFile e (disk svc) datedBooksFile (Books newBooks) of
                Inl error \<Rightarrow> (Inl error, svc1)
              | Inr fs1 \<Rightarrow>
                  (case writeFile e fs1 (knowledgeBooksFile e) (Books allKnowledgeBooks) of
                     Inl error \<Rightarrow> (Inl error, svc1\<lparr>disk := fs1\<rparr>)
                   | Inr fs2 \<Rightarrow>
                       (Inr datedBooksFile,
                        svc1\<lparr>disk := fs2,
                             collectionHistory := collectionHistory svc @
                               [\<lparr>h_id = collectionId,
                                 h_date = toISOString e now,
                                 h_displayDate = formattedDate,
                                 h_sources = sources (state svc),
                                 h_itemCount = length (results (state svc)),
                                 h_processingLevel = processingLevel (state svc),
                                 h_filename = basename datedBooksFile,
                                 h_booksFile = datedBooksFile\<rparr>]\<rparr>))))"




text \<open>
  The loop of \<open>loadKnowledgeBooks\<close> read file by file. A dated file contributes its
  records when it can be read and holds an array (\<open>usableParts\<close>); the contributions
  are taken in the order of the files, and a record is dropped when its id is in an
  earlier file, not when it is earlier in the same file (\<open>mergeFirstWins\<close>, which is
  what the loop computes). \<open>dedupById\<close> is the rule of the design on one list of
  records: the first record of each id stays.
\<close>

definition partitionBooks :: "env \<Rightarrow> filesystem \<Rightarrow> string \<Rightarrow> book list option" where
  "partitionBooks e fs file =
     (case readFile fs (joinPath (dataDir e) file) of
        Inr (Books booksData) \<Rightarrow> Some booksData
      | _ \<Rightarrow> None)"

definition usableParts :: "env \<Rightarrow> filesystem \<Rightarrow> string list \<Rightarrow> book list list" where
  "usableParts e fs files = List.map_filter (partitionBooks e fs) files"


fun dedupById :: "string set \<Rightarrow> book list \<Rightarrow> book list" where
  "dedupById seen [] = []"
| "dedupById seen (b # bs) =
     (if b_id b \<in> seen then dedupById seen bs else b # dedupById (insert (b_id b) seen) bs)"



section \<open>A collection run: \<open>CollectionService.collectData\<close>\<close>

definition noKeys :: api_keys where
  "noKeys = \<lparr>newsApiKey = None, githubApiKey = None\<rparr>"

definition loadedKeys :: "env \<Rightarrow> api_keys" where
  "loadedKeys e = (case loadApiKeys e of Some (Inr k) \<Rightarrow> k | Some (Inl error) \<Rightarrow> noKeys | None \<Rightarrow> noKeys)"

definition startRun :: "env \<Rightarrow> config \<Rightarrow> service \<Rightarrow> service" where
  "startRun e cfg svc =
     svc\<lparr>state := \<lparr>running = True, progress = 0, currentSource = ''Initializing...'',
                    itemsCollected = 0, startTime = Some (toISOString e (clock svc)),
                    processingLevel = cfg_processingLevel cfg, sources = cfg_sources cfg,
                    stateKeywords = cfg_keywords cfg, maxResults = cfg_maxResults cfg,
                    results = []\<rparr>,
         clock := clock svc + 3\<rparr>"

definition completeRun :: "service \<Rightarrow> (js_error + result_item list) \<times> service" where
  "completeRun svc =
     (Inr (results (state svc)),
      svc\<lparr>state := (state svc)\<lparr>running := False, progress := 100, currentSource := ''Completed''\<rparr>\<rparr>)"

text \<open>
  \<open>collectData\<close> of the service. The run's id is the \<open>uuidv4()\<close> taken after the start
  time. The call of \<open>saveCollectionResults\<close> is not inside a \<open>try\<close>.
\<close>

definition serviceCollectData :: "env \<Rightarrow> config \<Rightarrow> service \<Rightarrow> (js_error + result_item list) \<times> service" where
  "serviceCollectData e cfg svc0 =
     (let collectionId = uuidv4 e (clock svc0 + 1);
          svc1 = startRun e cfg svc0;
          svc2 = processSources e cfg collectionId (loadedKeys e) 0 (cfg_sources cfg) svc1
      in if saveToKnowledgeBooks cfg then
           (case saveCollectionResults e collectionId svc2 of
              (Inl error, svc3) \<Rightarrow> (Inl error, svc3)
            | (Inr datedBooksFile, svc3) \<Rightarrow> completeRun svc3)
         else completeRun svc2)"

text \<open>
  The module \<open>duckDuckGoAdapter.js\<close>: the class of the previous section, with the two
  methods the orchestrator calls.
\<close>

definition arrayResult :: "js_error + 'a list \<Rightarrow> js_error + 'a js_array" where
  "arrayResult r = (case r of Inl error \<Rightarrow> Inl error | Inr xs \<Rightarrow> Inr (Arr xs))"

definition duckDuckGoModule :: "web \<Rightarrow> adapter_module" where
  "duckDuckGoModule w =
     ClassExport (\<lambda>options.
       let a = newDuckDuckGoAdapter options
       in Inr \<lparr>fetchContent = None,
               collectDataMethod = Some (\<lambda>kws. arrayResult (collectData w a (Some kws))),
               performSearchMethod = Some (\<lambda>q. arrayResult (performSearch w a q))\<rparr>)"


text \<open>What an item of the web-search adapter says about the search result it was made of.\<close>

definition itemKey :: "raw_item \<Rightarrow> string option \<times> string option \<times> string option" where
  "itemKey i = (i_title i, i_sourceUrl i, i_sourceName i)"



section \<open>The interactive path: the routes \<open>/collection/start\<close> and \<open>/collection/stop\<close>\<close>

text \<open>
  The handlers run on one thread and give way to each other at every \<open>await\<close>. A
  handler of \<open>POST /start\<close> runs from the arrival of the request to
  \<open>await loadUserInterests()\<close>; when the interests are there it goes on, answers with
  the redirect and calls \<open>simulateCollection\<close>, which runs to its first \<open>await\<close>
  and, later, to its end. The steps of a run between its start and its end write
  \<open>progress\<close>, \<open>currentSource\<close>, \<open>itemsCollected\<close> and \<open>results\<close> of the shared
  \<open>collectionState\<close>, never \<open>running\<close>, and are left out.
\<close>

datatype form_sources = Many "string list" | One string

record start_form =
  f_sources :: form_sources
  f_keywords :: "string option"
  f_maxResults :: "int option"
  f_processingLevel :: "string option"
  f_saveToKnowledgeBooks :: "string option"

text \<open>\<open>str.split(',')\<close>\<close>

fun split_comma :: "string \<Rightarrow> string list" where
  "split_comma [] = [[]]"
| "split_comma (c # cs) =
     (if c = CHR '','' then [] # split_comma cs
      else (case split_comma cs of [] \<Rightarrow> [[c]] | w # ws \<Rightarrow> (c # w) # ws))"

definition formConfig :: "start_form \<Rightarrow> config" where
  "formConfig body =
     \<lparr>cfg_sources = (case f_sources body of Many xs \<Rightarrow> xs | One x \<Rightarrow> [x]),
      cfg_keywords = (if truthy (f_keywords body)
                      then map trim (split_comma (or_default (f_keywords body) [])) else []),
      cfg_maxResults = (case f_maxResults body of None \<Rightarrow> 10 | Some n \<Rightarrow> if n = 0 then 10 else n),
      cfg_processingLevel = or_default (f_processingLevel body) ''basic'',
      saveToKnowledgeBooks = (f_saveToKnowledgeBooks body = Some ''on'')\<rparr>"

datatype phase = AwaitingInterests config | Collecting config | Finished

record server =
  collectionState :: collection_state
  handlers :: "phase list"
  serverClock :: nat

datatype event =
  PostStart start_form
| InterestsLoaded nat "js_error + string list"
| RunEnds nat
| PostStop

text \<open>The handler of \<open>POST /start\<close>, up to its first \<open>await\<close>.\<close>

definition postStart :: "start_form \<Rightarrow> server \<Rightarrow> server" where
  "postStart body s =
     (if running (collectionState s) then s
      else s\<lparr>handlers := handlers s @ [AwaitingInterests (formConfig body)]\<rparr>)"

text \<open>
  The handler goes on: the names of the interests are added to the keywords (not when
  loading them failed), and \<open>simulateCollection\<close> resets the shared state.
\<close>

definition beginCollection :: "(nat \<Rightarrow> string) \<Rightarrow> config \<Rightarrow> js_error + string list \<Rightarrow> server \<Rightarrow> nat \<Rightarrow> server" where
  "beginCollection isoTime cfg interests s k =
     (let cfg' = (case interests of
                    Inl error \<Rightarrow> cfg
                  | Inr interestKeywords \<Rightarrow> cfg\<lparr>cfg_keywords := cfg_keywords cfg @ interestKeywords\<rparr>)
      in s\<lparr>collectionState :=
             \<lparr>running = True, progress = 0, currentSource = ''Initializing...'',
              itemsCollected = 0, startTime = Some (isoTime (serverClock s)),
              processingLevel = cfg_processingLevel cfg', sources = cfg_sources cfg',
              stateKeywords = cfg_keywords cfg', maxResults = cfg_maxResults cfg',
              results = []\<rparr>,
           handlers := (handlers s)[k := Collecting cfg'],
           serverClock := Suc (serverClock s)\<rparr>)"

definition endCollection :: "server \<Rightarrow> nat \<Rightarrow> server" where
  "endCollection s k =
     s\<lparr>collectionState := (collectionState s)\<lparr>running := False, progress := 100,
                               currentSource := ''Completed''\<rparr>,
       handlers := (handlers s)[k := Finished]\<rparr>"

definition postStop :: "server \<Rightarrow> server" where
  "postStop s =
     (if running (collectionState s)
      then s\<lparr>collectionState := (collectionState s)\<lparr>running := False, currentSource := ''Stopped''\<rparr>\<rparr>
      else s)"

text \<open>One turn of the event loop. An event for a handler that is not waiting for it changes nothing.\<close>

definition step :: "(nat \<Rightarrow> string) \<Rightarrow> event \<Rightarrow> server \<Rightarrow> server" where
  "step isoTime ev s =
     (case ev of
        PostStart body \<Rightarrow> postStart body s
      | InterestsLoaded k interests \<Rightarrow>
          (if k < length (handlers s) then
             (case handlers s ! k of
                AwaitingInterests cfg \<Rightarrow> beginCollection isoTime cfg interests s k
              | _ \<Rightarrow> s)
           else s)
      | RunEnds k \<Rightarrow>
          (if k < length (handlers s) then
             (case handlers s ! k of Collecting cfg \<Rightarrow> endCollection s k | _ \<Rightarrow> s)
           else s)
      | PostStop \<Rightarrow> postStop s)"

fun steps :: "(nat \<Rightarrow> string) \<Rightarrow> event list \<Rightarrow> server \<Rightarrow> server" where
  "steps isoTime [] s = s"
| "steps isoTime (ev # evs) s = steps isoTime evs (step isoTime ev s)"

definition isCollecting :: "phase \<Rightarrow> bool" where
  "isCollecting p = (case p of Collecting cfg \<Rightarrow> True | _ \<Rightarrow> False)"

text \<open>The runs that have started and not ended.\<close>

definition runsInFlight :: "server \<Rightarrow> nat" where
  "runsInFlight s = length (filter isCollecting (handlers s))"

definition initialServer :: server where
  "initialServer = \<lparr>collectionState = initialState, handlers = [], serverClock = 0\<rparr>"


section \<open>Example worlds\<close>

text \<open>
  Concrete surroundings on which the engine is run below: a results page with two
  usable links (the second behind a redirect link), reached or not, with pages that
  cannot be fetched; a source tree with four adapters, of which the one for Wikipedia
  gives its article an id computed from the title; clocks that count.
\<close>

definition exampleURL :: "string \<Rightarrow> js_error + url_parts" where
  "exampleURL u =
     (if startsWith u ''https://''
      then Inr \<lparr>u_protocol = ''https:'',
                u_hostname = takeWhile (\<lambda>c. c \<noteq> CHR ''/'') (drop 8 u), u_uddg = None\<rparr>
      else Inl (JsError ''Invalid URL''))"

definition exampleElements :: "result_element list" where
  "exampleElements =
     [\<lparr>e_titleElem = Some \<lparr>t_href = Some ''https://example.org/page'', t_text = '' Example page ''\<rparr>,
       e_snippetText = Some ''An example''\<rparr>,
      \<lparr>e_titleElem = None, e_snippetText = Some ''An advertisement''\<rparr>,
      \<lparr>e_titleElem = Some \<lparr>t_href = Some ''//duckduckgo.com/l/?uddg=https://www.example.com/a&rut=1'',
                            t_text = ''Second''\<rparr>,
       e_snippetText = None\<rparr>]"

definition replyOk :: "string \<Rightarrow> string \<Rightarrow> int \<Rightarrow> http_reply" where
  "replyOk u agent limit = Reply 200 ''<html>''"

definition replyNone :: "string \<Rightarrow> string \<Rightarrow> int \<Rightarrow> http_reply" where
  "replyNone u agent limit = RequestError (JsError ''getaddrinfo ENOTFOUND html.duckduckgo.com'')"

definition parsedPage :: "string \<Rightarrow> js_error + result_element list" where
  "parsedPage html = Inr exampleElements"

definition emptyPage :: "string \<Rightarrow> js_error + result_element list" where
  "emptyPage html = Inr []"

definition fetchTimeout :: "string \<Rightarrow> js_error + http_response" where
  "fetchTimeout u = Inl (JsError ''timeout of 10000ms exceeded'')"

definition fetchHello :: "string \<Rightarrow> js_error + http_response" where
  "fetchHello u = Inr \<lparr>h_contentType = Some ''text/html'', h_data = ''hello''\<rparr>"

definition unreachablePages :: web where
  "unreachablePages =
     \<lparr>newURL = exampleURL, decodeURIComponent = Inr, encodeURIComponent = id,
      jsdomResults = parsedPage, httpsGet = replyOk, axiosGet = fetchTimeout,
      cheerioBodyText = Inr\<rparr>"

definition offlineWeb :: web where
  "offlineWeb = unreachablePages\<lparr>httpsGet := replyNone\<rparr>"

definition brokenParser :: "string \<Rightarrow> js_error + result_element list" where
  "brokenParser html = Inl (JsError ''Could not parse the document'')"

definition unparsableWeb :: web where
  "unparsableWeb = unreachablePages\<lparr>jsdomResults := brokenParser\<rparr>"

definition firstLink :: search_result where
  "firstLink = \<lparr>s_title = ''Example page'', s_url = ''https://example.org/page'',
     s_snippet = ''An example''\<rparr>"

definition exampleAdapter :: ddg_adapter where
  "exampleAdapter = newDuckDuckGoAdapter (retryOptions 10)"

definition silentWeb :: web where
  "silentWeb = unreachablePages\<lparr>jsdomResults := emptyPage\<rparr>"

definition exampleArticle :: raw_item where
  "exampleArticle = emptyItem\<lparr>i_id := Some ''9f2b6a1c'', i_title := Some ''Quantum computing'',
     i_summary := Some ''An article'', i_date := Some ''5''\<rparr>"

definition fixedAdapter :: "js_error + raw_item js_array \<Rightarrow> adapter_module" where
  "fixedAdapter r =
     ClassExport (\<lambda>options. Inr \<lparr>fetchContent = Some (\<lambda>kws. r), collectDataMethod = None,
                                 performSearchMethod = None\<rparr>)"

definition sourceTree :: "string list" where
  "sourceTree = [''/app/src/core/sourceAdapters/duckDuckGoAdapter.js'',
                 ''/app/src/core/sourceAdapters/arxivAdapter.js'',
                 ''/app/src/core/sourceAdapters/wikipediaAdapter.js'',
                 ''/app/src/core/sourceAdapters/githubAdapter.js'']"

definition exampleRequire :: "web \<Rightarrow> string \<Rightarrow> js_error + adapter_module" where
  "exampleRequire w p =
     (if p = ''/app/src/core/sourceAdapters/duckDuckGoAdapter.js'' then Inr (duckDuckGoModule w)
      else if p = ''/app/src/core/sourceAdapters/wikipediaAdapter.js''
        then Inr (fixedAdapter (Inr (Arr [exampleArticle])))
      else if p = ''/app/src/core/sourceAdapters/arxivAdapter.js'' then Inr (fixedAdapter (Inr (Arr [])))
      else if p = ''/app/src/core/sourceAdapters/githubAdapter.js''
        then Inr (fixedAdapter (Inl (JsError ''API rate limit exceeded'')))
      else Inl (JsError (''Cannot find module '' @ p)))"

text \<open>
  A web-search adapter whose content collection finds nothing while its search-only
  capability finds six links.
\<close>

definition exampleLinks :: "search_result list" where
  "exampleLinks =
     [\<lparr>s_title = ''One'', s_url = ''https://a.example/1'', s_snippet = ''first''\<rparr>,
      \<lparr>s_title = ''Two'', s_url = ''https://a.example/2'', s_snippet = []\<rparr>,
      \<lparr>s_title = ''Three'', s_url = ''https://a.example/3'', s_snippet = ''third''\<rparr>,
      \<lparr>s_title = ''Four'', s_url = ''https://a.example/4'', s_snippet = ''fourth''\<rparr>,
      \<lparr>s_title = ''Five'', s_url = ''https://a.example/5'', s_snippet = ''fifth''\<rparr>,
      \<lparr>s_title = ''Six'', s_url = ''https://a.example/6'', s_snippet = ''sixth''\<rparr>]"

definition nothingCollected :: "string list \<Rightarrow> js_error + raw_item js_array" where
  "nothingCollected kws = Inr (Arr [])"

definition sixLinks :: "string \<Rightarrow> js_error + search_result js_array" where
  "sixLinks q = Inr (Arr exampleLinks)"

definition noLinks :: "string \<Rightarrow> js_error + search_result js_array" where
  "noLinks q = Inr (Arr [])"

definition linksOnlyAdapter :: adapter where
  "linksOnlyAdapter = \<lparr>fetchContent = None, collectDataMethod = Some nothingCollected,
     performSearchMethod = Some sixLinks\<rparr>"

definition linksOnlyClass :: "adapter_options \<Rightarrow> js_error + adapter" where
  "linksOnlyClass options = Inr linksOnlyAdapter"

definition linksOnlyRequire :: "string \<Rightarrow> js_error + adapter_module" where
  "linksOnlyRequire p = Inr (ClassExport linksOnlyClass)"

definition blockedAdapter :: adapter where
  "blockedAdapter = linksOnlyAdapter\<lparr>performSearchMethod := Some noLinks\<rparr>"

definition blockedClass :: "adapter_options \<Rightarrow> js_error + adapter" where
  "blockedClass options = Inr blockedAdapter"

definition blockedRequire :: "string \<Rightarrow> js_error + adapter_module" where
  "blockedRequire p = Inr (ClassExport blockedClass)"

text \<open>Dates of the examples are written as decimal numbers.\<close>

fun readDigits :: "string \<Rightarrow> nat \<Rightarrow> nat option" where
  "readDigits [] acc = Some acc"
| "readDigits (c # cs) acc =
     (let n = (of_char c :: nat)
      in if 48 \<le> n \<and> n \<le> 57 then readDigits cs (10 * acc + (n - 48)) else None)"

definition exampleParseDate :: "string \<Rightarrow> int option" where
  "exampleParseDate s = (if s = [] then None else map_option int (readDigits s 0))"

definition uuidAt :: "nat \<Rightarrow> string" where
  "uuidAt n = ''uuid-'' @ show_nat n"

definition runLabel :: "nat \<Rightarrow> string" where
  "runLabel n = ''run-'' @ show_nat n"

text \<open>\<open>Math.floor((i / n) * 100)\<close>, computed on exact numbers.\<close>

definition exactPercent :: "nat \<Rightarrow> nat \<Rightarrow> nat" where
  "exactPercent i n = (i * 100) div n"

definition inSourceTree :: "string \<Rightarrow> bool" where
  "inSourceTree p = (p \<in> set sourceTree)"

definition exampleEnv :: "web \<Rightarrow> env" where
  "exampleEnv w =
     \<lparr>rootDir = ''/app'', dataDir = ''/data'', knowledgeBooksFile = ''/data/knowledge-books.json'',
      adapterFileExists = inSourceTree,
      requireModule = exampleRequire w,
      loadApiKeys = None,
      uuidv4 = uuidAt, toISOString = show_nat, formatDate = runLabel,
      parseDate = exampleParseDate, encodeURI = id, floorPercent = exactPercent\<rparr>"

definition exampleConfig :: "string list \<Rightarrow> bool \<Rightarrow> config" where
  "exampleConfig srcs save =
     \<lparr>cfg_sources = srcs, cfg_keywords = [''quantum''], cfg_maxResults = 10,
      cfg_processingLevel = ''basic'', saveToKnowledgeBooks = save\<rparr>"

definition noError :: "string \<Rightarrow> js_error option" where
  "noError p = None"

definition diskFull :: "string \<Rightarrow> js_error option" where
  "diskFull p = Some (JsError ''ENOSPC: no space left on device, write'')"

definition emptyDisk :: filesystem where
  "emptyDisk = \<lparr>entries = [], contents = Map.empty, mkdirError = None, readdirError = None,
     readError = noError, writeError = noError\<rparr>"

definition fullDisk :: filesystem where
  "fullDisk = emptyDisk\<lparr>writeError := diskFull\<rparr>"







text \<open>Two runs over the source \<open>wikipedia\<close>, both saved.\<close>

definition afterFirstRun :: service where
  "afterFirstRun =
     snd (serviceCollectData (exampleEnv offlineWeb) (exampleConfig [''wikipedia''] True)
            (newCollectionService emptyDisk))"

definition afterSecondRun :: service where
  "afterSecondRun =
     snd (serviceCollectData (exampleEnv offlineWeb) (exampleConfig [''wikipedia''] True) afterFirstRun)"

definition storedBooks :: "filesystem \<Rightarrow> string \<Rightarrow> book list" where
  "storedBooks fs p = (case contents fs p of Some (Books bs) \<Rightarrow> bs | _ \<Rightarrow> [])"



text \<open>A form that asks for one source.\<close>

definition exampleForm :: start_form where
  "exampleForm = \<lparr>f_sources = One ''wikipedia'', f_keywords = Some ''quantum, physics'',
     f_maxResults = Some 5, f_processingLevel = None, f_saveToKnowledgeBooks = Some ''on''\<rparr>"


section \<open>Interest scheduling\<close>

text \<open>
  C8 (amended). \<open>isCollectionDue\<close> is false for a disabled interest and true for an
  enabled one that was never collected; for an enabled interest collected at \<open>t\<close> with
  frequency hourly, daily or weekly it is true if and only if the time elapsed since \<open>t\<close>
  is at least (not: more than) the threshold of 1, 24 or 168 hours. A daily interest
  collected 23 hours ago is not due, one collected 25 hours ago is.
\<close>

theorem isCollectionDue_threshold:
  "(\<not> enabled i \<longrightarrow> \<not> isCollectionDue now i) \<and>
   (enabled i \<and> lastCollectionDate i = None \<longrightarrow> isCollectionDue now i) \<and>
   (enabled i \<and> lastCollectionDate i = Some t \<and> thresholdHours (collectFrequency i) = Some h \<longrightarrow>
      (isCollectionDue now i \<longleftrightarrow> now - t \<ge> h * msPerHour)) \<and>
   (enabled i \<and> lastCollectionDate i = Some t \<and> collectFrequency i = ''daily'' \<longrightarrow>
      \<not> isCollectionDue (t + 23 * msPerHour) i \<and> isCollectionDue (t + 25 * msPerHour) i)"
  by (auto simp: isCollectionDue_def thresholdHours_def msPerHour_def Let_def
           split: option.splits bool.splits if_splits)

theorem isCollectionDue_threshold_witness:
  "\<not> isCollectionDue 5 \<lparr>ui_id = ''ui_1'', ui_tags = [''AI''], ui_weight = 1,
       lastCollectionDate = None, collectFrequency = ''daily'', enabled = False\<rparr> \<and>
   isCollectionDue 5 \<lparr>ui_id = ''ui_1'', ui_tags = [''AI''], ui_weight = 1,
       lastCollectionDate = None, collectFrequency = ''daily'', enabled = True\<rparr> \<and>
   isCollectionDue (7 + 2 * msPerHour) \<lparr>ui_id = ''ui_1'', ui_tags = [''AI''], ui_weight = 1,
       lastCollectionDate = Some 7, collectFrequency = ''hourly'', enabled = True\<rparr> \<and>
   \<not> isCollectionDue (7 + 23 * msPerHour) \<lparr>ui_id = ''ui_1'', ui_tags = [''AI''], ui_weight = 1,
       lastCollectionDate = Some 7, collectFrequency = ''daily'', enabled = True\<rparr> \<and>
   isCollectionDue (7 + 25 * msPerHour) \<lparr>ui_id = ''ui_1'', ui_tags = [''AI''], ui_weight = 1,
       lastCollectionDate = Some 7, collectFrequency = ''daily'', enabled = True\<rparr>"
  using
    isCollectionDue_threshold [of "\<lparr>ui_id = ''ui_1'', ui_tags = [''AI''], ui_weight = 1,
       lastCollectionDate = None, collectFrequency = ''daily'', enabled = False\<rparr>" 5 0 24]
    isCollectionDue_threshold [of "\<lparr>ui_id = ''ui_1'', ui_tags = [''AI''], ui_weight = 1,
       lastCollectionDate = None, collectFrequency = ''daily'', enabled = True\<rparr>" 5 0 24]
    isCollectionDue_threshold [of "\<lparr>ui_id = ''ui_1'', ui_tags = [''AI''], ui_weight = 1,
       lastCollectionDate = Some 7, collectFrequency = ''hourly'', enabled = True\<rparr>" "7 + 2 * msPerHour" 7 1]
    isCollectionDue_threshold [of "\<lparr>ui_id = ''ui_1'', ui_tags = [''AI''], ui_weight = 1,
       lastCollectionDate = Some 7, collectFrequency = ''daily'', enabled = True\<rparr>" 0 7 24]
  by (simp add: thresholdHours_def msPerHour_def)

text \<open>
  C8 as stated fails at the threshold itself: a daily interest collected exactly 24 hours
  ago is reported due, although the elapsed time does not exceed 24 hours.
\<close>

theorem isCollectionDue_at_threshold:
  "isCollectionDue (24 * msPerHour) \<lparr>ui_id = ''ui_1'', ui_tags = [''AI''], ui_weight = 1,
       lastCollectionDate = Some 0, collectFrequency = ''daily'', enabled = True\<rparr> \<and>
   \<not> (24 * msPerHour - 0 > 24 * msPerHour)"
  by (simp add: isCollectionDue_def msPerHour_def)


section \<open>The result cache\<close>

text \<open>
  C7 (amended). A search is served from the cache if and only if the caller has not
  switched the cache off (\<open>useCache\<close> is not \<open>false\<close>) and the slot of the engine holds
  exactly the requested query and a timestamp less than the TTL ago; the response then
  carries the slot's results and the service is unchanged. Otherwise, when the engine has
  an adapter and the adapter returns, the adapter's results are returned with
  \<open>fromCache = false\<close> and the slot of that engine is overwritten with the results, the
  query and the time at which they arrived. \<open>fromCache\<close> is true exactly on a hit.
\<close>

theorem search_cache:
  "(o_useCache opts \<noteq> Some False \<and> slotFresh svc now (effectiveEngine opts) q \<longrightarrow>
      (\<exists>slot. cache svc (effectiveEngine opts) = Some slot \<and>
         search collect now stamped svc q opts =
           (Inr \<lparr>sr_results = c_results slot, sr_query = q, sr_engine = effectiveEngine opts,
                 sr_timestamp = c_timestamp slot, fromCache = True\<rparr>, svc))) \<and>
   (\<not> (o_useCache opts \<noteq> Some False \<and> slotFresh svc now (effectiveEngine opts) q) \<longrightarrow>
    adapterMaxResults svc (effectiveEngine opts) \<noteq> None \<longrightarrow>
      (\<forall>rs. collect (effectiveEngine opts) (adapterLimit svc opts) (splitQuery q) = Inr rs \<longrightarrow>
         (\<exists>svc'. search collect now stamped svc q opts =
            (Inr \<lparr>sr_results = rs, sr_query = q, sr_engine = effectiveEngine opts,
                  sr_timestamp = Some stamped, fromCache = False\<rparr>, svc') \<and>
            cache svc' = (cache svc)(effectiveEngine opts \<mapsto>
                           \<lparr>c_results = rs, c_query = q, c_timestamp = Some stamped\<rparr>)))) \<and>
   (\<forall>r svc'. search collect now stamped svc q opts = (Inr r, svc') \<longrightarrow>
      (fromCache r \<longleftrightarrow> o_useCache opts \<noteq> Some False \<and> slotFresh svc now (effectiveEngine opts) q))"
  by (auto simp: search_def cachedSlot_def slotFresh_def Let_def split: option.splits sum.splits if_splits)

theorem search_cache_witness:
  "fst (search silentAdapter 1000 1200 warmService ''x'' defaultOptions) =
     Inr \<lparr>sr_results = [], sr_query = ''x'', sr_engine = ''duckduckgo'',
          sr_timestamp = Some 0, fromCache = True\<rparr> \<and>
   fst (search silentAdapter 300000 300200 warmService ''x'' defaultOptions) =
     Inr \<lparr>sr_results = [], sr_query = ''x'', sr_engine = ''duckduckgo'',
          sr_timestamp = Some 300200, fromCache = False\<rparr> \<and>
   fst (search silentAdapter 1000 1200 warmService ''X'' defaultOptions) =
     Inr \<lparr>sr_results = [], sr_query = ''X'', sr_engine = ''duckduckgo'',
          sr_timestamp = Some 1200, fromCache = False\<rparr>"
  using search_cache [where opts = defaultOptions and svc = warmService and now = 1000 and stamped = 1200 and q = "''x''" and collect = silentAdapter]
    search_cache [where opts = defaultOptions and svc = warmService and now = 300000 and stamped = 300200 and q = "''x''" and collect = silentAdapter]
    search_cache [where opts = defaultOptions and svc = warmService and now = 1000 and stamped = 1200 and q = "''X''" and collect = silentAdapter]
  by (auto simp: slotFresh_def warmService_def defaultOptions_def effectiveEngine_def
        or_default_def newSearchService_def silentAdapter_def)

text \<open>
  C7 as stated fails when the caller passes \<open>useCache = false\<close>: the slot holds the
  requested query, its timestamp is one second old with a TTL of 300 seconds, and the
  search is not served from the cache.
\<close>

theorem search_uncached_despite_fresh_slot:
  "slotFresh warmService 1000 ''duckduckgo'' ''x'' \<and>
   fst (search silentAdapter 1000 1200 warmService ''x'' uncachedOptions) =
     Inr \<lparr>sr_results = [], sr_query = ''x'', sr_engine = ''duckduckgo'',
          sr_timestamp = Some 1200, fromCache = False\<rparr>"
  by (simp add: slotFresh_def warmService_def uncachedOptions_def effectiveEngine_def
        or_default_def newSearchService_def silentAdapter_def search_def cachedSlot_def
        adapterLimit_def Let_def)


section \<open>The web-search adapter\<close>

text \<open>The search does not depend on how pages are fetched.\<close>

lemma performSearch_fetch_free [simp]:
  "performSearch (w\<lparr>axiosGet := g, cheerioBodyText := h\<rparr>) a q = performSearch w a q"
proof -
  have ext: "extractTarget (w\<lparr>axiosGet := g, cheerioBodyText := h\<rparr>) x = extractTarget w x" for x
    by (simp add: extractTarget_def Let_def split: option.splits sum.splits)
  have val: "isValidUrl (w\<lparr>axiosGet := g, cheerioBodyText := h\<rparr>) x = isValidUrl w x" for x
    by (simp add: isValidUrl_def split: sum.splits)
  have "parseElements (w\<lparr>axiosGet := g, cheerioBodyText := h\<rparr>) es acc = parseElements w es acc" for es acc
    by (induction es arbitrary: acc) (simp_all add: ext val Let_def split: option.splits)
  then show ?thesis
    by (simp add: performSearch_def parseSearchResults_def split: http_reply.splits sum.splits)
qed

lemma processResult_fetch_free:
  "fst (processResult (w\<lparr>axiosGet := g, cheerioBodyText := h\<rparr>) a terms r seen) = fst (processResult w a terms r seen) \<and>
   map_sum id (map_option itemKey) (snd (processResult (w\<lparr>axiosGet := g, cheerioBodyText := h\<rparr>) a terms r seen))
    = map_sum id (map_option itemKey) (snd (processResult w a terms r seen))"
  by (auto simp: processResult_def Let_def extractDomain_def itemKey_def fetchedItem_def fetchErrorItem_def emptyItem_def
        split: sum.splits option.splits)

lemma processResults_fetch_free:
  "map itemKey items = map itemKey items' \<Longrightarrow>
   map itemKey (processResults (w\<lparr>axiosGet := g, cheerioBodyText := h\<rparr>) a terms rs seen items)
   = map itemKey (processResults w a terms rs seen items')"
proof (induction rs arbitrary: seen items items')
  case Nil
  then show ?case by simp
next
  case (Cons r rs)
  obtain s1 o1 where p1: "processResult (w\<lparr>axiosGet := g, cheerioBodyText := h\<rparr>) a terms r seen = (s1, o1)"
    by (cases "processResult (w\<lparr>axiosGet := g, cheerioBodyText := h\<rparr>) a terms r seen")
  obtain s2 o2 where p2: "processResult w a terms r seen = (s2, o2)"
    by (cases "processResult w a terms r seen")
  from processResult_fetch_free [where w = w and g = g and h = h and a = a and terms = terms and r = r and seen = seen] p1 p2
  have s: "s1 = s2" and o: "map_sum id (map_option itemKey) o1 = map_sum id (map_option itemKey) o2"
    by simp_all
  show ?case
  proof (cases o2)
    case (Inl err)
    with o obtain err' where "o1 = Inl err'" by (cases o1) auto
    with Inl p1 p2 s Cons show ?thesis by simp
  next
    case (Inr v)
    with o obtain v' where o1: "o1 = Inr v'" and vv: "map_option itemKey v' = map_option itemKey v"
      by (cases o1) auto
    show ?thesis
    proof (cases v)
      case None
      with vv have "v' = None" by simp
      with None Inr o1 p1 p2 s Cons show ?thesis by simp
    next
      case (Some item)
      with vv obtain item' where v': "v' = Some item'" and k: "itemKey item' = itemKey item"
        by (cases v') auto
      have "map itemKey (items @ [item']) = map itemKey (items' @ [item])"
        using Cons.prems k by simp
      from Cons.IH [OF this] Some Inr o1 v' p1 p2 s show ?thesis by simp
    qed
  qed
qed

lemma collectData_total: "\<exists>items. collectData w a terms = Inr items"
  by (auto simp: collectData_def try_catch_def split: option.splits sum.splits)

lemma processResult_seen:
  "set (fst (processResult w a t r seen)) = insert (s_url r) (set seen)"
  by (auto simp: processResult_def Let_def)

text \<open>The loop only ever pushes: what is in \<open>contentItems\<close> stays there.\<close>

lemma processResults_keeps:
  "set items \<subseteq> set (processResults w a t rs seen items)"
proof (induction rs arbitrary: seen items)
  case Nil
  then show ?case by simp
next
  case (Cons r rs)
  obtain p out where po: "processResult w a t r seen = (p, out)"
    by (cases "processResult w a t r seen")
  show ?case
    using Cons.IH [of items p] Cons.IH [of "items @ [x]" p for x] po
    by (auto split: sum.splits option.splits)
qed

text \<open>After the first results of the list, \<open>processedUrls\<close> holds exactly their URLs.\<close>

lemma processResults_append:
  "\<exists>seen' items'. processResults w a t (xs @ ys) seen items = processResults w a t ys seen' items' \<and>
      set seen' = set seen \<union> s_url ` set xs"
proof (induction xs arbitrary: seen items)
  case Nil
  then show ?case by auto
next
  case (Cons r rs)
  obtain p out where po: "processResult w a t r seen = (p, out)"
    by (cases "processResult w a t r seen")
  have p: "set p = insert (s_url r) (set seen)"
    using processResult_seen [of w a t r seen] po by simp
  show ?case
  proof (cases out)
    case (Inl err)
    then show ?thesis using Cons.IH [of p items] po p by auto
  next
    case (Inr found)
    then show ?thesis
    proof (cases found)
      case None
      then show ?thesis using Cons.IH [of p items] po p Inr by auto
    next
      case (Some item)
      then show ?thesis using Cons.IH [of p "items @ [item]"] po p Inr by auto
    qed
  qed
qed

lemma processResults_fetch_error:
  assumes "s_url r \<notin> set seen" "isAllowedDomain a (extractDomain w (s_url r)) = Inr True"
    "startsWith (s_url r) ''http''" "fetchPage w (s_url r) = Inl fetchError"
  shows "processResults w a terms (r # rest) seen items =
        processResults w a terms rest (seen @ [s_url r])
          (items @ [fetchErrorItem terms r (extractDomain w (s_url r)) fetchError])"
proof -
  from assms have "s_url r \<noteq> []" by (auto simp: startsWith_def)
  with assms show ?thesis by (simp add: processResult_def Let_def)
qed

lemma processResults_nth_fetch_error:
  assumes k: "k < length rs" and new: "s_url (rs ! k) \<notin> s_url ` set (take k rs)"
    and ok: "isAllowedDomain a (extractDomain w (s_url (rs ! k))) = Inr True"
    "startsWith (s_url (rs ! k)) ''http''" "fetchPage w (s_url (rs ! k)) = Inl fetchError"
  shows "fetchErrorItem terms (rs ! k) (extractDomain w (s_url (rs ! k))) fetchError
           \<in> set (processResults w a terms rs [] [])"
proof -
  let ?item = "fetchErrorItem terms (rs ! k) (extractDomain w (s_url (rs ! k))) fetchError"
  have rs: "rs = take k rs @ (rs ! k) # drop (Suc k) rs"
    using k by (simp add: id_take_nth_drop)
  obtain seen' items' where
    s: "processResults w a terms (take k rs @ (rs ! k) # drop (Suc k) rs) [] [] =
          processResults w a terms ((rs ! k) # drop (Suc k) rs) seen' items'"
       "set seen' = set [] \<union> s_url ` set (take k rs)"
    using processResults_append by blast
  have "s_url (rs ! k) \<notin> set seen'" using s(2) new by simp
  from processResults_fetch_error [OF this ok]
  have "processResults w a terms ((rs ! k) # drop (Suc k) rs) seen' items' =
     processResults w a terms (drop (Suc k) rs) (seen' @ [s_url (rs ! k)]) (items' @ [?item])" .
  with s(1) rs have "processResults w a terms rs [] [] =
     processResults w a terms (drop (Suc k) rs) (seen' @ [s_url (rs ! k)]) (items' @ [?item])"
    by simp
  then show ?thesis
    using processResults_keeps [of "items' @ [?item]" w a terms "drop (Suc k) rs"
        "seen' @ [s_url (rs ! k)]"] by auto
qed

text \<open>
  C9. When the page of a search result cannot be fetched or its body cannot be extracted
  (\<open>fetchPage\<close> throws, whatever the error), the result is not dropped. In the loop of
  \<open>collectData\<close>, a result that is processed (its URL not seen before, its domain allowed,
  its URL starting with \<open>http\<close>) pushes an item with the result's title (or \<open>Untitled\<close>),
  its URL, its snippet (or \<open>Content unavailable\<close>), the body
  \<open>Unable to retrieve content: \<close> followed by the error's message and the tags of the
  search terms followed by \<open>duckduckgo\<close> and \<open>fetch_error\<close>. That item is in the list
  that \<open>collectData\<close> returns: for every position \<open>k\<close> among the first \<open>maxResults\<close>
  search results whose result is processed and whose page fails, the list returned for
  the search terms contains the item. And the number of returned items, their titles and
  their URLs are the same whatever happens when the pages are fetched.
\<close>

theorem fetch_failure_keeps_result:
  "(s_url r \<notin> set seen \<and> isAllowedDomain a (extractDomain w (s_url r)) = Inr True \<and>
    startsWith (s_url r) ''http'' \<and> fetchPage w (s_url r) = Inl fetchError \<longrightarrow>
      processResults w a terms (r # rest) seen items =
        processResults w a terms rest (seen @ [s_url r])
          (items @ [emptyItem\<lparr>i_title := Some (str_or (s_title r) ''Untitled''),
                             i_sourceUrl := Some (s_url r),
                             i_summary := Some (str_or (s_snippet r) ''Content unavailable''),
                             i_content := Some (''Unable to retrieve content: '' @ message fetchError),
                             i_sourceName := Some (or_default (extractDomain w (s_url r)) ''Unknown source''),
                             i_tags := Some (terms @ [''duckduckgo'', ''fetch_error''])\<rparr>])) \<and>
   (terms \<noteq> [] \<and> performSearch w a (join '' '' terms) = Inr found \<and>
    k < length (slice0 found (d_maxResults a)) \<and> slice0 found (d_maxResults a) ! k = r \<and>
    s_url r \<notin> s_url ` set (take k (slice0 found (d_maxResults a))) \<and>
    isAllowedDomain a (extractDomain w (s_url r)) = Inr True \<and>
    startsWith (s_url r) ''http'' \<and> fetchPage w (s_url r) = Inl fetchError \<longrightarrow>
      (\<exists>xs. collectData w a (Some terms) = Inr xs \<and>
         emptyItem\<lparr>i_title := Some (str_or (s_title r) ''Untitled''),
                   i_sourceUrl := Some (s_url r),
                   i_summary := Some (str_or (s_snippet r) ''Content unavailable''),
                   i_content := Some (''Unable to retrieve content: '' @ message fetchError),
                   i_sourceName := Some (or_default (extractDomain w (s_url r)) ''Unknown source''),
                   i_tags := Some (terms @ [''duckduckgo'', ''fetch_error''])\<rparr> \<in> set xs)) \<and>
   (\<exists>xs ys. collectData w a ts = Inr xs \<and>
       collectData (w\<lparr>axiosGet := g, cheerioBodyText := h\<rparr>) a ts = Inr ys \<and>
       length xs = length ys \<and> map i_title xs = map i_title ys \<and> map i_sourceUrl xs = map i_sourceUrl ys)"
proof (intro conjI impI)
  assume h: "s_url r \<notin> set seen \<and> isAllowedDomain a (extractDomain w (s_url r)) = Inr True \<and>
    startsWith (s_url r) ''http'' \<and> fetchPage w (s_url r) = Inl fetchError"
  then show "processResults w a terms (r # rest) seen items =
        processResults w a terms rest (seen @ [s_url r])
          (items @ [emptyItem\<lparr>i_title := Some (str_or (s_title r) ''Untitled''),
                             i_sourceUrl := Some (s_url r),
                             i_summary := Some (str_or (s_snippet r) ''Content unavailable''),
                             i_content := Some (''Unable to retrieve content: '' @ message fetchError),
                             i_sourceName := Some (or_default (extractDomain w (s_url r)) ''Unknown source''),
                             i_tags := Some (terms @ [''duckduckgo'', ''fetch_error''])\<rparr>])"
    using processResults_fetch_error [of r seen a w fetchError terms rest items]
    by (simp add: fetchErrorItem_def)
next
  let ?limited = "slice0 found (d_maxResults a)"
  assume h: "terms \<noteq> [] \<and> performSearch w a (join '' '' terms) = Inr found \<and>
    k < length ?limited \<and> ?limited ! k = r \<and>
    s_url r \<notin> s_url ` set (take k ?limited) \<and>
    isAllowedDomain a (extractDomain w (s_url r)) = Inr True \<and>
    startsWith (s_url r) ''http'' \<and> fetchPage w (s_url r) = Inl fetchError"
  then have "found \<noteq> []" by (auto simp: slice0_def split: if_splits)
  with h have c: "collectData w a (Some terms) = Inr (processResults w a terms ?limited [] [])"
    by (simp add: collectData_def try_catch_def)
  have "fetchErrorItem terms (?limited ! k) (extractDomain w (s_url (?limited ! k))) fetchError
           \<in> set (processResults w a terms ?limited [] [])"
    using h by (intro processResults_nth_fetch_error) auto
  with h c show "\<exists>xs. collectData w a (Some terms) = Inr xs \<and>
         emptyItem\<lparr>i_title := Some (str_or (s_title r) ''Untitled''),
                   i_sourceUrl := Some (s_url r),
                   i_summary := Some (str_or (s_snippet r) ''Content unavailable''),
                   i_content := Some (''Unable to retrieve content: '' @ message fetchError),
                   i_sourceName := Some (or_default (extractDomain w (s_url r)) ''Unknown source''),
                   i_tags := Some (terms @ [''duckduckgo'', ''fetch_error''])\<rparr> \<in> set xs"
    by (auto simp: fetchErrorItem_def)
next
  let ?w' = "w\<lparr>axiosGet := g, cheerioBodyText := h\<rparr>"
  obtain xs where xs: "collectData w a ts = Inr xs" using collectData_total by blast
  obtain ys where ys: "collectData ?w' a ts = Inr ys" using collectData_total by blast
  have "map itemKey ys = map itemKey xs"
    using xs ys processResults_fetch_free [where items = "[]" and items' = "[]" and w = w and g = g and h = h and a = a]
    by (auto simp: collectData_def try_catch_def split: option.splits sum.splits if_splits)
  then have "map (fst \<circ> itemKey) ys = map (fst \<circ> itemKey) xs"
      and "map (fst \<circ> snd \<circ> itemKey) ys = map (fst \<circ> snd \<circ> itemKey) xs"
      and "length ys = length xs"
    by (metis map_map, metis map_map, metis length_map)
  then show "\<exists>xs ys. collectData w a ts = Inr xs \<and> collectData ?w' a ts = Inr ys \<and>
       length xs = length ys \<and> map i_title xs = map i_title ys \<and> map i_sourceUrl xs = map i_sourceUrl ys"
    using xs ys by (auto simp: itemKey_def comp_def)
qed

text \<open>
  The example: the search finds two links and every page times out. The second link has
  no snippet; it is kept, with the placeholder summary and body, after the first, and
  the two items are all that \<open>collectData\<close> returns. When the pages can be read the list
  has the same two titles and URLs.
\<close>

theorem fetch_failure_keeps_result_witness:
  "processResults unreachablePages exampleAdapter [''quantum'']
     [\<lparr>s_title = ''Second'', s_url = ''https://www.example.com/a'', s_snippet = []\<rparr>]
     [''https://example.org/page''] [emptyItem] =
     [emptyItem,
      emptyItem\<lparr>i_title := Some ''Second'', i_sourceUrl := Some ''https://www.example.com/a'',
        i_summary := Some ''Content unavailable'',
        i_content := Some ''Unable to retrieve content: timeout of 10000ms exceeded'',
        i_sourceName := Some ''example.com'',
        i_tags := Some [''quantum'', ''duckduckgo'', ''fetch_error'']\<rparr>] \<and>
   (\<exists>xs. collectData unreachablePages exampleAdapter (Some [''quantum'']) = Inr xs \<and>
      emptyItem\<lparr>i_title := Some ''Second'', i_sourceUrl := Some ''https://www.example.com/a'',
        i_summary := Some ''Content unavailable'',
        i_content := Some ''Unable to retrieve content: timeout of 10000ms exceeded'',
        i_sourceName := Some ''example.com'',
        i_tags := Some [''quantum'', ''duckduckgo'', ''fetch_error'']\<rparr> \<in> set xs) \<and>
   collectData unreachablePages exampleAdapter (Some [''quantum'']) =
     Inr [emptyItem\<lparr>i_title := Some ''Example page'', i_sourceUrl := Some ''https://example.org/page'',
            i_summary := Some ''An example'',
            i_content := Some ''Unable to retrieve content: timeout of 10000ms exceeded'',
            i_sourceName := Some ''example.org'',
            i_tags := Some [''quantum'', ''duckduckgo'', ''fetch_error'']\<rparr>,
          emptyItem\<lparr>i_title := Some ''Second'', i_sourceUrl := Some ''https://www.example.com/a'',
            i_summary := Some ''Content unavailable'',
            i_content := Some ''Unable to retrieve content: timeout of 10000ms exceeded'',
            i_sourceName := Some ''example.com'',
            i_tags := Some [''quantum'', ''duckduckgo'', ''fetch_error'']\<rparr>] \<and>
   (\<exists>ys. collectData (unreachablePages\<lparr>axiosGet := fetchHello, cheerioBodyText := Inr\<rparr>)
            exampleAdapter (Some [''quantum'']) = Inr ys \<and>
      length ys = 2 \<and> map i_title ys = [Some ''Example page'', Some ''Second''] \<and>
      map i_sourceUrl ys = [Some ''https://example.org/page'', Some ''https://www.example.com/a''])"
proof -
  define second where
    "second = \<lparr>s_title = ''Second'', s_url = ''https://www.example.com/a'', s_snippet = []\<rparr>"
  define timeout where "timeout = JsError ''timeout of 10000ms exceeded''"
  define item where
    "item = emptyItem\<lparr>i_title := Some ''Second'', i_sourceUrl := Some ''https://www.example.com/a'',
        i_summary := Some ''Content unavailable'',
        i_content := Some ''Unable to retrieve content: timeout of 10000ms exceeded'',
        i_sourceName := Some ''example.com'',
        i_tags := Some [''quantum'', ''duckduckgo'', ''fetch_error'']\<rparr>"
  have h1: "s_url second \<notin> set [''https://example.org/page''] \<and>
     isAllowedDomain exampleAdapter (extractDomain unreachablePages (s_url second)) = Inr True \<and>
     startsWith (s_url second) ''http'' \<and>
     fetchPage unreachablePages (s_url second) = Inl timeout"
    unfolding second_def timeout_def by code_simp
  have h2: "[''quantum''] \<noteq> [] \<and>
     performSearch unreachablePages exampleAdapter (join '' '' [''quantum'']) = Inr [firstLink, second] \<and>
     1 < length (slice0 [firstLink, second] (d_maxResults exampleAdapter)) \<and>
     slice0 [firstLink, second] (d_maxResults exampleAdapter) ! 1 = second \<and>
     s_url second \<notin> s_url ` set (take 1 (slice0 [firstLink, second] (d_maxResults exampleAdapter)))"
    unfolding second_def by code_simp
  have i: "emptyItem\<lparr>i_title := Some (str_or (s_title second) ''Untitled''),
                   i_sourceUrl := Some (s_url second),
                   i_summary := Some (str_or (s_snippet second) ''Content unavailable''),
                   i_content := Some (''Unable to retrieve content: '' @ message timeout),
                   i_sourceName := Some (or_default (extractDomain unreachablePages (s_url second)) ''Unknown source''),
                   i_tags := Some ([''quantum''] @ [''duckduckgo'', ''fetch_error''])\<rparr> = item"
    unfolding second_def timeout_def item_def by code_simp
  have e: "processResults unreachablePages exampleAdapter [''quantum''] []
             ([''https://example.org/page''] @ [s_url second]) ([emptyItem] @ [item]) = [emptyItem, item]"
    by simp
  have all: "collectData unreachablePages exampleAdapter (Some [''quantum'']) =
     Inr [emptyItem\<lparr>i_title := Some ''Example page'', i_sourceUrl := Some ''https://example.org/page'',
            i_summary := Some ''An example'',
            i_content := Some ''Unable to retrieve content: timeout of 10000ms exceeded'',
            i_sourceName := Some ''example.org'',
            i_tags := Some [''quantum'', ''duckduckgo'', ''fetch_error'']\<rparr>, item]"
    unfolding item_def by code_simp
  have other: "collectData unreachablePages exampleAdapter (Some [''quantum'']) = Inr xs \<Longrightarrow>
      length xs = 2 \<and> map i_title xs = [Some ''Example page'', Some ''Second''] \<and>
      map i_sourceUrl xs = [Some ''https://example.org/page'', Some ''https://www.example.com/a'']" for xs
    unfolding all item_def by auto
  note t = fetch_failure_keeps_result [where r = second and seen = "[''https://example.org/page'']"
        and a = exampleAdapter and w = unreachablePages and fetchError = timeout
        and terms = "[''quantum'']" and rest = "[]" and items = "[emptyItem]"
        and ts = "Some [''quantum'']" and g = fetchHello and h = Inr and k = 1
        and found = "[firstLink, second]", unfolded i]
  have c1: "processResults unreachablePages exampleAdapter [''quantum''] [second]
     [''https://example.org/page''] [emptyItem] = [emptyItem, item]"
    using t h1 e by metis
  have c2: "\<exists>xs. collectData unreachablePages exampleAdapter (Some [''quantum'']) = Inr xs \<and> item \<in> set xs"
    using t h1 h2 by blast
  have c3: "\<exists>ys. collectData (unreachablePages\<lparr>axiosGet := fetchHello, cheerioBodyText := Inr\<rparr>)
            exampleAdapter (Some [''quantum'']) = Inr ys \<and>
      length ys = 2 \<and> map i_title ys = [Some ''Example page'', Some ''Second''] \<and>
      map i_sourceUrl ys = [Some ''https://example.org/page'', Some ''https://www.example.com/a'']"
    using t other by metis
  show ?thesis
    using c1 c2 c3 all unfolding second_def item_def by blast
qed

lemma collectData_search_fails:
  "performSearch w a (join '' '' ts) = Inl err \<Longrightarrow> collectData w a (Some ts) = Inr []"
  by (simp add: collectData_def try_catch_def)

lemma invoke_duck:
  assumes "requireModule e (resolveAdapterPath e source) = Inr (duckDuckGoModule w)"
    and "toLowerCase source = ''duckduckgo''"
  shows "invokeAdapter e cfg keys source =
     Inr (Invoked (Arr (case collectData w (newDuckDuckGoAdapter (adapterOptions cfg keys source))
                          (Some (keywordsOr (cfg_keywords cfg) ''general'')) of Inr xs \<Rightarrow> xs | Inl _ \<Rightarrow> []))
           (keywordsOr (cfg_keywords cfg) ''general''))"
proof -
  obtain xs where xs: "collectData w (newDuckDuckGoAdapter (adapterOptions cfg keys source))
                          (Some (keywordsOr (cfg_keywords cfg) ''general'')) = Inr xs"
    using collectData_total by blast
  show ?thesis
    using assms xs by (simp add: invokeAdapter_def duckDuckGoModule_def arrayResult_def Let_def)
qed

text \<open>
  C10. \<open>collectData\<close> of the web-search adapter returns a list for every input; the list
  is empty when there are no search terms, when the search request fails and (through
  \<open>parseSearchResults\<close>, which returns the empty list) when the results page cannot be
  parsed. So for the source \<open>duckduckgo\<close>, resolved to this adapter, the call of the
  adapter in the orchestrator never throws: it gives the list, and when the list is
  empty the source's turn is the fallback cascade, not the \<open>catch\<close> of the loop.
\<close>

theorem collectData_never_throws:
  "(\<exists>items. collectData w a terms = Inr items) \<and>
   collectData w a None = Inr [] \<and>
   collectData w a (Some []) = Inr [] \<and>
   (performSearch w a (join '' '' ts) = Inl err \<longrightarrow> collectData w a (Some ts) = Inr []) \<and>
   (jsdomResults w html = Inl err \<longrightarrow> parseSearchResults w html = []) \<and>
   (toLowerCase source = ''duckduckgo'' \<and>
    requireModule e (resolveAdapterPath e source) = Inr (duckDuckGoModule w) \<longrightarrow>
      (\<exists>items. collectData w (newDuckDuckGoAdapter (adapterOptions cfg keys source))
                  (Some (keywordsOr (cfg_keywords cfg) ''general'')) = Inr items \<and>
               invokeAdapter e cfg keys source =
                 Inr (Invoked (Arr items) (keywordsOr (cfg_keywords cfg) ''general'')) \<and>
               (items = [] \<longrightarrow>
                  processSource e cfg cid keys i source svc =
                    handleDuckDuckGoFallback e source (cfg_keywords cfg) (cfg_maxResults cfg) cid
                      (svc\<lparr>state := (state svc)\<lparr>currentSource := source,
                               progress := floorPercent e i (length (cfg_sources cfg))\<rparr>\<rparr>))))"
proof (intro conjI impI)
  show "\<exists>items. collectData w a terms = Inr items" by (rule collectData_total)
  show "collectData w a None = Inr []" by (simp add: collectData_def)
  show "collectData w a (Some []) = Inr []" by (simp add: collectData_def)
  show "collectData w a (Some ts) = Inr []" if "performSearch w a (join '' '' ts) = Inl err"
    using that by (rule collectData_search_fails)
  show "parseSearchResults w html = []" if "jsdomResults w html = Inl err"
    using that by (simp add: parseSearchResults_def)
next
  assume h: "toLowerCase source = ''duckduckgo'' \<and>
    requireModule e (resolveAdapterPath e source) = Inr (duckDuckGoModule w)"
  obtain items where items: "collectData w (newDuckDuckGoAdapter (adapterOptions cfg keys source))
      (Some (keywordsOr (cfg_keywords cfg) ''general'')) = Inr items"
    using collectData_total by blast
  with h have inv: "invokeAdapter e cfg keys source =
      Inr (Invoked (Arr items) (keywordsOr (cfg_keywords cfg) ''general''))"
    by (simp add: invoke_duck)
  have "processSource e cfg cid keys i source svc =
        handleDuckDuckGoFallback e source (cfg_keywords cfg) (cfg_maxResults cfg) cid
          (svc\<lparr>state := (state svc)\<lparr>currentSource := source,
                   progress := floorPercent e i (length (cfg_sources cfg))\<rparr>\<rparr>)" if "items = []"
    using that h inv by (simp add: processSource_def nonEmptyArray_def Let_def)
  with items inv show "\<exists>items. collectData w (newDuckDuckGoAdapter (adapterOptions cfg keys source))
                  (Some (keywordsOr (cfg_keywords cfg) ''general'')) = Inr items \<and>
               invokeAdapter e cfg keys source =
                 Inr (Invoked (Arr items) (keywordsOr (cfg_keywords cfg) ''general'')) \<and>
               (items = [] \<longrightarrow>
                  processSource e cfg cid keys i source svc =
                    handleDuckDuckGoFallback e source (cfg_keywords cfg) (cfg_maxResults cfg) cid
                      (svc\<lparr>state := (state svc)\<lparr>currentSource := source,
                               progress := floorPercent e i (length (cfg_sources cfg))\<rparr>\<rparr>))"
    by blast
qed

text \<open>The adapters of the example source tree.\<close>

lemma ex_paths:
  "resolveAdapterPath (exampleEnv w) ''duckduckgo'' = ''/app/src/core/sourceAdapters/duckDuckGoAdapter.js''"
  "resolveAdapterPath (exampleEnv w) ''github'' = ''/app/src/core/sourceAdapters/githubAdapter.js''"
  "resolveAdapterPath (exampleEnv w) ''wikipedia'' = ''/app/src/core/sourceAdapters/wikipediaAdapter.js''"
  "resolveAdapterPath (exampleEnv w) ''arxiv'' = ''/app/src/core/sourceAdapters/arxivAdapter.js''"
  by (simp_all add: resolveAdapterPath_def exampleEnv_def adapterFile_def capitalize_def toUpperChar_def
        toLowerCase_def toLowerChar_def inSourceTree_def sourceTree_def Let_def)

lemma ex_lower:
  "toLowerCase ''duckduckgo'' = ''duckduckgo''" "toLowerCase ''github'' = ''github''"
  "toLowerCase ''wikipedia'' = ''wikipedia''" "toLowerCase ''arxiv'' = ''arxiv''"
  by (simp_all add: toLowerCase_def toLowerChar_def)

theorem collectData_never_throws_witness:
  "collectData offlineWeb exampleAdapter (Some [''quantum'']) = Inr [] \<and>
   parseSearchResults unparsableWeb ''<html>'' = [] \<and>
   processSource (exampleEnv offlineWeb) (exampleConfig [''duckduckgo''] False) ''run-1'' noKeys 0
       ''duckduckgo'' (newCollectionService emptyDisk) =
     handleDuckDuckGoFallback (exampleEnv offlineWeb) ''duckduckgo'' [''quantum''] 10 ''run-1''
       ((newCollectionService emptyDisk)\<lparr>state := initialState\<lparr>currentSource := ''duckduckgo'', progress := 0\<rparr>\<rparr>)"
proof -
  let ?e = "exampleEnv offlineWeb" and ?c = "exampleConfig [''duckduckgo''] False"
  have off: "performSearch offlineWeb a q = Inl (JsError ''getaddrinfo ENOTFOUND html.duckduckgo.com'')" for a q
    by (simp add: performSearch_def offlineWeb_def unreachablePages_def replyNone_def)
  have bad: "jsdomResults unparsableWeb ''<html>'' = Inl (JsError ''Could not parse the document'')"
    by (simp add: unparsableWeb_def unreachablePages_def brokenParser_def)
  have req: "toLowerCase ''duckduckgo'' = ''duckduckgo'' \<and>
       requireModule ?e (resolveAdapterPath ?e ''duckduckgo'') = Inr (duckDuckGoModule offlineWeb)"
    by (simp add: ex_paths ex_lower) (simp add: exampleEnv_def exampleRequire_def)
  have kw: "keywordsOr (cfg_keywords ?c) ''general'' = [''quantum'']"
    by (simp add: exampleConfig_def keywordsOr_def trim_def is_space_def)
  note main = collectData_never_throws [where w = offlineWeb and ts = "[''quantum'']"
        and err = "JsError ''getaddrinfo ENOTFOUND html.duckduckgo.com''"
        and source = "''duckduckgo''" and e = ?e and cfg = ?c and keys = noKeys and cid = "''run-1''"
        and i = 0 and svc = "newCollectionService emptyDisk"]
  have 1: "collectData offlineWeb a (Some [''quantum'']) = Inr []" for a
    using main [where a = a] off by blast
  have 2: "parseSearchResults unparsableWeb ''<html>'' = []"
    using collectData_never_throws [where w = unparsableWeb and html = "''<html>''"
        and err = "JsError ''Could not parse the document''"] bad by blast
  from main [where a = exampleAdapter] req obtain items where
      c: "collectData offlineWeb (newDuckDuckGoAdapter (adapterOptions ?c noKeys ''duckduckgo''))
            (Some (keywordsOr (cfg_keywords ?c) ''general'')) = Inr items"
    and r: "items = [] \<longrightarrow>
        processSource ?e ?c ''run-1'' noKeys 0 ''duckduckgo'' (newCollectionService emptyDisk) =
          handleDuckDuckGoFallback ?e ''duckduckgo'' (cfg_keywords ?c) (cfg_maxResults ?c) ''run-1''
            ((newCollectionService emptyDisk)\<lparr>state := (state (newCollectionService emptyDisk))
               \<lparr>currentSource := ''duckduckgo'',
                progress := floorPercent ?e 0 (length (cfg_sources ?c))\<rparr>\<rparr>)"
    by blast
  from c 1 have "items = []" by (simp add: kw)
  with r have 3: "processSource ?e ?c ''run-1'' noKeys 0 ''duckduckgo'' (newCollectionService emptyDisk) =
          handleDuckDuckGoFallback ?e ''duckduckgo'' (cfg_keywords ?c) (cfg_maxResults ?c) ''run-1''
            ((newCollectionService emptyDisk)\<lparr>state := (state (newCollectionService emptyDisk))
               \<lparr>currentSource := ''duckduckgo'',
                progress := floorPercent ?e 0 (length (cfg_sources ?c))\<rparr>\<rparr>)"
    by blast
  show ?thesis
    using 1 [of exampleAdapter] 2 3
    by (simp add: exampleConfig_def newCollectionService_def exampleEnv_def exactPercent_def)
qed


section \<open>The orchestrator\<close>

lemma processSources_append:
  "processSources e cfg cid keys i (pre @ post) svc =
   processSources e cfg cid keys (i + length pre) post (processSources e cfg cid keys i pre svc)"
  by (induction pre arbitrary: i svc) simp_all

lemma appendError_results:
  "results (state (appendError e s kws msg cid svc)) =
     results (state svc) @ [createErrorItem e (clock svc) s kws msg cid]"
  "itemsCollected (state (appendError e s kws msg cid svc)) = Suc (length (results (state svc)))"
  by (simp_all add: appendError_def setResults_def Let_def)

text \<open>
  C2. When the adapter of a source throws (while it is resolved, constructed or called),
  or returns no items and the source is not the web search, the source's turn appends
  exactly one record to the results of the run: an error record (\<open>isError\<close>) of that
  source, whose body begins with the error message or with the "no results" diagnostic.
  \<open>itemsCollected\<close> follows, and the loop goes on with the next source of the list:
  the run over \<open>pre @ s # post\<close> is the run over \<open>post\<close> from the state after \<open>s\<close>.
\<close>

theorem failed_source_one_error_record:
  "(invokeAdapter e cfg keys s = Inl err \<and> msg = ''Error using '' @ s @ '' adapter: '' @ message err \<or>
    invokeAdapter e cfg keys s = Inr (Invoked r kws) \<and> \<not> nonEmptyArray r \<and>
      toLowerCase s \<noteq> ''duckduckgo'' \<and> msg = ''No results found from '' @ s @ '' for the specified keywords.'')
   \<longrightarrow>
   (let before = processSources e cfg cid keys i pre svc;
        after = processSource e cfg cid keys (i + length pre) s before
    in (\<exists>item rest. results (state after) = results (state before) @ [item] \<and>
          r_isError item \<and> r_source item = s \<and> r_collectionId item = cid \<and>
          r_content item = msg @ rest) \<and>
       itemsCollected (state after) = length (results (state after)) \<and>
       processSources e cfg cid keys i (pre @ s # post) svc =
         processSources e cfg cid keys (i + length pre + 1) post after)"
proof (intro impI)
  assume h: "invokeAdapter e cfg keys s = Inl err \<and> msg = ''Error using '' @ s @ '' adapter: '' @ message err \<or>
    invokeAdapter e cfg keys s = Inr (Invoked r kws) \<and> \<not> nonEmptyArray r \<and>
      toLowerCase s \<noteq> ''duckduckgo'' \<and> msg = ''No results found from '' @ s @ '' for the specified keywords.''"
  define before where "before = processSources e cfg cid keys i pre svc"
  define mid where "mid = before\<lparr>state := (state before)\<lparr>currentSource := s,
                   progress := floorPercent e (i + length pre) (length (cfg_sources cfg))\<rparr>\<rparr>"
  define after where "after = processSource e cfg cid keys (i + length pre) s before"
  have after: "after = appendError e s (cfg_keywords cfg) msg cid mid"
    using h by (auto simp: after_def mid_def processSource_def Let_def)
  have res: "results (state mid) = results (state before)" by (simp add: mid_def)
  have 1: "\<exists>item rest. results (state after) = results (state before) @ [item] \<and>
          r_isError item \<and> r_source item = s \<and> r_collectionId item = cid \<and>
          r_content item = msg @ rest"
    unfolding after appendError_results res
    by (simp add: createErrorItem_def Let_def)
  have 2: "itemsCollected (state after) = length (results (state after))"
    unfolding after appendError_results by simp
  have 3: "processSources e cfg cid keys i (pre @ s # post) svc =
         processSources e cfg cid keys (i + length pre + 1) post after"
    by (simp add: processSources_append after_def before_def)
  show "let before = processSources e cfg cid keys i pre svc;
        after = processSource e cfg cid keys (i + length pre) s before
    in (\<exists>item rest. results (state after) = results (state before) @ [item] \<and>
          r_isError item \<and> r_source item = s \<and> r_collectionId item = cid \<and>
          r_content item = msg @ rest) \<and>
       itemsCollected (state after) = length (results (state after)) \<and>
       processSources e cfg cid keys i (pre @ s # post) svc =
         processSources e cfg cid keys (i + length pre + 1) post after"
    using 1 2 3 unfolding Let_def before_def after_def by blast
qed


theorem failed_source_one_error_record_witness:
  "length (results (state (processSource (exampleEnv offlineWeb)
       (exampleConfig [''wikipedia'', ''github'', ''arxiv''] False) ''run-1'' noKeys 1 ''github''
       (processSources (exampleEnv offlineWeb)
          (exampleConfig [''wikipedia'', ''github'', ''arxiv''] False) ''run-1'' noKeys 0 [''wikipedia'']
          (newCollectionService emptyDisk))))) = 2 \<and>
   r_isError (last (results (state (processSource (exampleEnv offlineWeb)
       (exampleConfig [''wikipedia'', ''github'', ''arxiv''] False) ''run-1'' noKeys 1 ''github''
       (processSources (exampleEnv offlineWeb)
          (exampleConfig [''wikipedia'', ''github'', ''arxiv''] False) ''run-1'' noKeys 0 [''wikipedia'']
          (newCollectionService emptyDisk)))))) \<and>
   processSources (exampleEnv offlineWeb)
       (exampleConfig [''wikipedia'', ''github'', ''arxiv''] False) ''run-1'' noKeys 0
       [''wikipedia'', ''github'', ''arxiv''] (newCollectionService emptyDisk) =
     processSources (exampleEnv offlineWeb)
       (exampleConfig [''wikipedia'', ''github'', ''arxiv''] False) ''run-1'' noKeys 2 [''arxiv'']
       (processSource (exampleEnv offlineWeb)
          (exampleConfig [''wikipedia'', ''github'', ''arxiv''] False) ''run-1'' noKeys 1 ''github''
          (processSources (exampleEnv offlineWeb)
             (exampleConfig [''wikipedia'', ''github'', ''arxiv''] False) ''run-1'' noKeys 0 [''wikipedia'']
             (newCollectionService emptyDisk))) \<and>
   map r_isError (results (state (processSources (exampleEnv offlineWeb)
       (exampleConfig [''wikipedia'', ''github'', ''arxiv''] False) ''run-1'' noKeys 0
       [''wikipedia'', ''github'', ''arxiv''] (newCollectionService emptyDisk)))) = [False, True, True]"
proof -
  let ?e = "exampleEnv offlineWeb" and ?c = "exampleConfig [''wikipedia'', ''github'', ''arxiv''] False"
  define s0 where "s0 = newCollectionService emptyDisk"
  define s1 where "s1 = processSources ?e ?c ''run-1'' noKeys 0 [''wikipedia''] s0"
  define s2 where "s2 = processSource ?e ?c ''run-1'' noKeys 1 ''github'' s1"
  define s3 where "s3 = processSource ?e ?c ''run-1'' noKeys 2 ''arxiv'' s2"
  have gh: "invokeAdapter ?e ?c noKeys ''github'' = Inl (JsError ''API rate limit exceeded'')"
    by code_simp
  have ax: "invokeAdapter ?e ?c noKeys ''arxiv'' = Inr (Invoked (Arr []) [''quantum''])"
    by code_simp
  have lo: "toLowerCase ''arxiv'' \<noteq> ''duckduckgo''" "\<not> nonEmptyArray (Arr ([] :: raw_item list))"
    by (simp_all add: ex_lower nonEmptyArray_def)
  have wk: "map r_isError (results (state s1)) = [False]"
    unfolding s1_def s0_def by code_simp
  have i1: "0 + length [''wikipedia''] = (1::nat)" "(1::nat) + 1 = 2"
    "[''wikipedia''] @ ''github'' # [''arxiv''] = [''wikipedia'', ''github'', ''arxiv'']"
    "0 + length [''wikipedia'', ''github''] = (2::nat)"
    "[''wikipedia'', ''github''] @ ''arxiv'' # [] = [''wikipedia'', ''github'', ''arxiv'']"
    by simp_all
  have s12: "processSources ?e ?c ''run-1'' noKeys 0 [''wikipedia'', ''github''] s0 = s2"
    unfolding s2_def s1_def by simp
  note g = failed_source_one_error_record [where e = ?e and cfg = ?c and keys = noKeys and s = "''github''"
        and err = "JsError ''API rate limit exceeded''"
        and msg = "''Error using github adapter: API rate limit exceeded''"
        and cid = "''run-1''" and i = 0 and pre = "[''wikipedia'']" and post = "[''arxiv'']"
        and svc = s0, unfolded Let_def i1, folded s1_def, folded s2_def]
  have mg: "''Error using github adapter: API rate limit exceeded'' =
      ''Error using '' @ ''github'' @ '' adapter: '' @ message (JsError ''API rate limit exceeded'')"
    by simp
  from g gh mg obtain item where
      g1: "results (state s2) = results (state s1) @ [item]" and g2: "r_isError item"
    and g3: "processSources ?e ?c ''run-1'' noKeys 0 [''wikipedia'', ''github'', ''arxiv''] s0 =
             processSources ?e ?c ''run-1'' noKeys 2 [''arxiv''] s2"
    by blast
  note a = failed_source_one_error_record [where e = ?e and cfg = ?c and keys = noKeys and s = "''arxiv''"
        and r = "Arr []" and kws = "[''quantum'']"
        and msg = "''No results found from arxiv for the specified keywords.''"
        and cid = "''run-1''" and i = 0 and pre = "[''wikipedia'', ''github'']" and post = "[]"
        and svc = s0, unfolded Let_def i1 s12, folded s3_def]
  have ma: "''No results found from arxiv for the specified keywords.'' =
      ''No results found from '' @ ''arxiv'' @ '' for the specified keywords.''"
    by simp
  from a ax lo ma obtain item' where
      a1: "results (state s3) = results (state s2) @ [item']" and a2: "r_isError item'"
    by blast
  have fin: "processSources ?e ?c ''run-1'' noKeys 2 [''arxiv''] s2 = s3"
    unfolding s3_def by simp
  have m: "map r_isError (results (state s3)) = [False, True, True]"
    unfolding a1 g1 using wk g2 a2 by simp
  have l: "length (results (state s2)) = 2"
    unfolding g1 using arg_cong [OF wk, of length] by simp
  have e: "r_isError (last (results (state s2)))"
    unfolding g1 using g2 by simp
  have "length (results (state s2)) = 2 \<and>
    r_isError (last (results (state s2))) \<and>
    processSources ?e ?c ''run-1'' noKeys 0 [''wikipedia'', ''github'', ''arxiv''] s0 =
      processSources ?e ?c ''run-1'' noKeys 2 [''arxiv''] s2 \<and>
    map r_isError (results (state
      (processSources ?e ?c ''run-1'' noKeys 0 [''wikipedia'', ''github'', ''arxiv''] s0))) =
      [False, True, True]"
    using l e g3 m unfolding g3 fin by blast
  then show ?thesis
    unfolding s2_def s1_def s0_def .
qed

text \<open>
  C3. In the fallback cascade, when the retry returns no items, the search-only
  capability is called and exactly one record is appended, which is one of three.
  When the call returns at least one link, the record is no error record: its body is
  the heading, the formatted list of the first five links (fewer if fewer were found)
  and the closing line, and its source URL is the URL of the first link. When the call
  returns an empty list (or no list), the record is an error record whose body begins
  with the notice that DuckDuckGo may be restricting automated queries. When the call
  throws, the record is an error record whose body begins with
  \<open>Error during DuckDuckGo search: \<close> and the message of the error.
\<close>

theorem fallback_search_only_tier:
  "requireModule e (adapterFile e ''duckDuckGoAdapter.js'') = Inr (ClassExport newAdapter) \<and>
   newAdapter (retryOptions maxRes) = Inr duckAdapter \<and>
   collectDataMethod duckAdapter = Some retry \<and>
   retry (keywordsOr kws ''artificial intelligence'') = Inr retried \<and> \<not> nonEmptyArray retried \<and>
   performSearchMethod duckAdapter = Some searchOnlyCall
   \<longrightarrow>
   (let after = handleDuckDuckGoFallback e source kws maxRes cid svc;
        q = join '' '' (keywordsOr kws ''artificial intelligence'')
    in itemsCollected (state after) = length (results (state after)) \<and>
       length (results (state after)) = Suc (length (results (state svc))) \<and>
       (searchOnlyCall q = Inr found \<and> nonEmptyArray found \<longrightarrow>
          (\<exists>item. results (state after) = results (state svc) @ [item] \<and>
             \<not> r_isError item \<and>
             r_content item =
               ''# Search results for \"'' @ q @ ''\"'' @ nl @ nl @
               join (nl @ nl) (map linkLine (enumerate 0 (take 5 (elements found)))) @ nl @ nl @
               ''These links were found using DuckDuckGo search. Click on any link to view the actual page.'' \<and>
             length (map linkLine (enumerate 0 (take 5 (elements found)))) = min 5 (length (elements found)) \<and>
             r_sourceUrl item = s_url (hd (elements found)) \<and>
             r_collectionId item = cid)) \<and>
       (searchOnlyCall q = Inr found \<and> \<not> nonEmptyArray found \<longrightarrow>
          (\<exists>item rest. results (state after) = results (state svc) @ [item] \<and>
             r_isError item \<and>
             r_title item = ''Error retrieving data from '' @ source \<and>
             r_content item =
               ''DuckDuckGo search API returned no results. DuckDuckGo may be restricting automated queries.'' @
               nl @ nl @ ''Tried to collect data at: '' @ rest \<and>
             r_collectionId item = cid)) \<and>
       (searchOnlyCall q = Inl searchError \<longrightarrow>
          (\<exists>item rest. results (state after) = results (state svc) @ [item] \<and>
             r_isError item \<and>
             r_title item = ''Error retrieving data from '' @ source \<and>
             r_content item =
               ''Error during DuckDuckGo search: '' @ message searchError @
               nl @ nl @ ''Tried to collect data at: '' @ rest \<and>
             r_collectionId item = cid)))"
proof (intro impI)
  assume h: "requireModule e (adapterFile e ''duckDuckGoAdapter.js'') = Inr (ClassExport newAdapter) \<and>
   newAdapter (retryOptions maxRes) = Inr duckAdapter \<and>
   collectDataMethod duckAdapter = Some retry \<and>
   retry (keywordsOr kws ''artificial intelligence'') = Inr retried \<and> \<not> nonEmptyArray retried \<and>
   performSearchMethod duckAdapter = Some searchOnlyCall"
  define kw where "kw = keywordsOr kws ''artificial intelligence''"
  define q where "q = join '' '' kw"
  define after where "after = handleDuckDuckGoFallback e source kws maxRes cid svc"
  have fb: "after = searchOnly e duckAdapter source kw cid svc"
    using h by (simp add: after_def handleDuckDuckGoFallback_def Let_def kw_def)
  have so: "searchOnly e duckAdapter source kw cid svc =
     (case searchOnlyCall q of
        Inl searchError \<Rightarrow>
          appendError e source kw (''Error during DuckDuckGo search: '' @ message searchError) cid svc
      | Inr found \<Rightarrow>
          if nonEmptyArray found
          then (setResults svc (results (state svc) @ [searchItem e (clock svc) kw (elements found) cid]))
                   \<lparr>clock := clock svc + 3\<rparr>
          else appendError e source kw
                 ''DuckDuckGo search API returned no results. DuckDuckGo may be restricting automated queries.''
                 cid svc)"
    using h by (simp add: searchOnly_def q_def)
  have n: "itemsCollected (state after) = length (results (state after)) \<and>
       length (results (state after)) = Suc (length (results (state svc)))"
    unfolding fb so
    by (simp add: appendError_def setResults_def Let_def split: sum.splits)
  have links: "\<exists>item. results (state after) = results (state svc) @ [item] \<and>
             \<not> r_isError item \<and>
             r_content item =
               ''# Search results for \"'' @ q @ ''\"'' @ nl @ nl @
               join (nl @ nl) (map linkLine (enumerate 0 (take 5 (elements found)))) @ nl @ nl @
               ''These links were found using DuckDuckGo search. Click on any link to view the actual page.'' \<and>
             length (map linkLine (enumerate 0 (take 5 (elements found)))) = min 5 (length (elements found)) \<and>
             r_sourceUrl item = s_url (hd (elements found)) \<and>
             r_collectionId item = cid"
    if f: "searchOnlyCall q = Inr found \<and> nonEmptyArray found"
  proof -
    from f obtain x xs where xs: "elements found = x # xs"
      by (cases found) (auto simp: nonEmptyArray_def elements_def neq_Nil_conv)
    show ?thesis
      unfolding fb so using f xs
      by (simp add: setResults_def searchItem_def Let_def linksContent_def q_def min_def)
  qed
  have none: "\<exists>item rest. results (state after) = results (state svc) @ [item] \<and>
             r_isError item \<and>
             r_title item = ''Error retrieving data from '' @ source \<and>
             r_content item =
               ''DuckDuckGo search API returned no results. DuckDuckGo may be restricting automated queries.'' @
               nl @ nl @ ''Tried to collect data at: '' @ rest \<and>
             r_collectionId item = cid"
    if f: "searchOnlyCall q = Inr found \<and> \<not> nonEmptyArray found"
    unfolding fb so using f
    by (simp add: appendError_results createErrorItem_def Let_def)
  have thrown: "\<exists>item rest. results (state after) = results (state svc) @ [item] \<and>
             r_isError item \<and>
             r_title item = ''Error retrieving data from '' @ source \<and>
             r_content item =
               ''Error during DuckDuckGo search: '' @ message searchError @
               nl @ nl @ ''Tried to collect data at: '' @ rest \<and>
             r_collectionId item = cid"
    if f: "searchOnlyCall q = Inl searchError"
    unfolding fb so using f
    by (simp add: appendError_results createErrorItem_def Let_def)
  show "let after = handleDuckDuckGoFallback e source kws maxRes cid svc;
        q = join '' '' (keywordsOr kws ''artificial intelligence'')
    in itemsCollected (state after) = length (results (state after)) \<and>
       length (results (state after)) = Suc (length (results (state svc))) \<and>
       (searchOnlyCall q = Inr found \<and> nonEmptyArray found \<longrightarrow>
          (\<exists>item. results (state after) = results (state svc) @ [item] \<and>
             \<not> r_isError item \<and>
             r_content item =
               ''# Search results for \"'' @ q @ ''\"'' @ nl @ nl @
               join (nl @ nl) (map linkLine (enumerate 0 (take 5 (elements found)))) @ nl @ nl @
               ''These links were found using DuckDuckGo search. Click on any link to view the actual page.'' \<and>
             length (map linkLine (enumerate 0 (take 5 (elements found)))) = min 5 (length (elements found)) \<and>
             r_sourceUrl item = s_url (hd (elements found)) \<and>
             r_collectionId item = cid)) \<and>
       (searchOnlyCall q = Inr found \<and> \<not> nonEmptyArray found \<longrightarrow>
          (\<exists>item rest. results (state after) = results (state svc) @ [item] \<and>
             r_isError item \<and>
             r_title item = ''Error retrieving data from '' @ source \<and>
             r_content item =
               ''DuckDuckGo search API returned no results. DuckDuckGo may be restricting automated queries.'' @
               nl @ nl @ ''Tried to collect data at: '' @ rest \<and>
             r_collectionId item = cid)) \<and>
       (searchOnlyCall q = Inl searchError \<longrightarrow>
          (\<exists>item rest. results (state after) = results (state svc) @ [item] \<and>
             r_isError item \<and>
             r_title item = ''Error retrieving data from '' @ source \<and>
             r_content item =
               ''Error during DuckDuckGo search: '' @ message searchError @
               nl @ nl @ ''Tried to collect data at: '' @ rest \<and>
             r_collectionId item = cid))"
    unfolding Let_def after_def [symmetric] kw_def [symmetric] q_def [symmetric]
    using n links none thrown by blast
qed

text \<open>
  Three examples. A module whose content collection finds nothing while its search-only
  capability finds six links: the record lists the first five. A module whose
  search-only capability finds nothing: the notice about automated queries. And the
  module of the web-search adapter itself when the network is down: the retry returns
  the empty list, the search-only call throws, and the record says so.
\<close>

theorem fallback_search_only_tier_witness:
  "map r_sourceUrl (results (state (handleDuckDuckGoFallback
       ((exampleEnv offlineWeb)\<lparr>requireModule := linksOnlyRequire\<rparr>)
       ''duckduckgo'' [''quantum''] 10 ''run-1'' (newCollectionService emptyDisk)))) = [''https://a.example/1''] \<and>
   map r_isError (results (state (handleDuckDuckGoFallback
       ((exampleEnv offlineWeb)\<lparr>requireModule := linksOnlyRequire\<rparr>)
       ''duckduckgo'' [''quantum''] 10 ''run-1'' (newCollectionService emptyDisk)))) = [False] \<and>
   map r_content (results (state (handleDuckDuckGoFallback
       ((exampleEnv offlineWeb)\<lparr>requireModule := linksOnlyRequire\<rparr>)
       ''duckduckgo'' [''quantum''] 10 ''run-1'' (newCollectionService emptyDisk)))) =
     [''# Search results for \"quantum\"'' @ nl @ nl @
      ''1. [One](https://a.example/1)'' @ nl @ ''   first'' @ nl @ nl @
      ''2. [Two](https://a.example/2)'' @ nl @ ''   '' @ nl @ nl @
      ''3. [Three](https://a.example/3)'' @ nl @ ''   third'' @ nl @ nl @
      ''4. [Four](https://a.example/4)'' @ nl @ ''   fourth'' @ nl @ nl @
      ''5. [Five](https://a.example/5)'' @ nl @ ''   fifth'' @ nl @ nl @
      ''These links were found using DuckDuckGo search. Click on any link to view the actual page.''] \<and>
   map r_isError (results (state (handleDuckDuckGoFallback
       ((exampleEnv offlineWeb)\<lparr>requireModule := blockedRequire\<rparr>)
       ''duckduckgo'' [''quantum''] 10 ''run-1'' (newCollectionService emptyDisk)))) = [True] \<and>
   map r_content (results (state (handleDuckDuckGoFallback
       ((exampleEnv offlineWeb)\<lparr>requireModule := blockedRequire\<rparr>)
       ''duckduckgo'' [''quantum''] 10 ''run-1'' (newCollectionService emptyDisk)))) =
     [''DuckDuckGo search API returned no results. DuckDuckGo may be restricting automated queries.'' @
      nl @ nl @ ''Tried to collect data at: 0'' @ nl @ ''Keywords: quantum'' @ nl @ nl @
      ''To troubleshoot this issue:'' @ nl @ ''- Check your network connection'' @ nl @
      ''- Verify API credentials if applicable'' @ nl @ ''- Try different keywords'' @ nl @
      ''- Try again later''] \<and>
   map r_isError (results (state (handleDuckDuckGoFallback (exampleEnv offlineWeb)
       ''duckduckgo'' [''quantum''] 10 ''run-1'' (newCollectionService emptyDisk)))) = [True] \<and>
   map r_content (results (state (handleDuckDuckGoFallback (exampleEnv offlineWeb)
       ''duckduckgo'' [''quantum''] 10 ''run-1'' (newCollectionService emptyDisk)))) =
     [''Error during DuckDuckGo search: getaddrinfo ENOTFOUND html.duckduckgo.com'' @
      nl @ nl @ ''Tried to collect data at: 0'' @ nl @ ''Keywords: quantum'' @ nl @ nl @
      ''To troubleshoot this issue:'' @ nl @ ''- Check your network connection'' @ nl @
      ''- Verify API credentials if applicable'' @ nl @ ''- Try different keywords'' @ nl @
      ''- Try again later'']"
proof -
  define blocked where "blocked = handleDuckDuckGoFallback
       ((exampleEnv offlineWeb)\<lparr>requireModule := blockedRequire\<rparr>)
       ''duckduckgo'' [''quantum''] 10 ''run-1'' (newCollectionService emptyDisk)"
  define offline where "offline = handleDuckDuckGoFallback (exampleEnv offlineWeb)
       ''duckduckgo'' [''quantum''] 10 ''run-1'' (newCollectionService emptyDisk)"
  define cls :: "adapter_options \<Rightarrow> js_error + adapter" where
    "cls = (\<lambda>options.
       Inr \<lparr>fetchContent = None,
            collectDataMethod =
              Some (\<lambda>kws. arrayResult (collectData offlineWeb (newDuckDuckGoAdapter options) (Some kws))),
            performSearchMethod =
              Some (\<lambda>q. arrayResult (performSearch offlineWeb (newDuckDuckGoAdapter options) q))\<rparr>)"
  define retry where
    "retry = (\<lambda>kws. arrayResult (collectData offlineWeb (newDuckDuckGoAdapter (retryOptions 10)) (Some kws)))"
  define searchOnlyCall where
    "searchOnlyCall = (\<lambda>q. arrayResult (performSearch offlineWeb (newDuckDuckGoAdapter (retryOptions 10)) q))"
  define duck where
    "duck = \<lparr>fetchContent = None, collectDataMethod = Some retry, performSearchMethod = Some searchOnlyCall\<rparr>"
  have kw: "keywordsOr [''quantum''] ''artificial intelligence'' = [''quantum'']"
    by (simp add: keywordsOr_def trim_def is_space_def)
  have lines: "map linkLine (enumerate 0 (take 5 exampleLinks)) =
     [''1. [One](https://a.example/1)'' @ nl @ ''   first'',
      ''2. [Two](https://a.example/2)'' @ nl @ ''   '',
      ''3. [Three](https://a.example/3)'' @ nl @ ''   third'',
      ''4. [Four](https://a.example/4)'' @ nl @ ''   fourth'',
      ''5. [Five](https://a.example/5)'' @ nl @ ''   fifth'']"
    by (simp add: exampleLinks_def linkLine_def show_nat.simps digit_char_def char_of_eq_iff)
  have a: "requireModule ((exampleEnv offlineWeb)\<lparr>requireModule := linksOnlyRequire\<rparr>)
             (adapterFile ((exampleEnv offlineWeb)\<lparr>requireModule := linksOnlyRequire\<rparr>) ''duckDuckGoAdapter.js'')
             = Inr (ClassExport linksOnlyClass) \<and>
           linksOnlyClass (retryOptions 10) = Inr linksOnlyAdapter \<and>
           collectDataMethod linksOnlyAdapter = Some nothingCollected \<and>
           nothingCollected (keywordsOr [''quantum''] ''artificial intelligence'') = Inr (Arr []) \<and>
           \<not> nonEmptyArray (Arr ([] :: raw_item list)) \<and>
           performSearchMethod linksOnlyAdapter = Some sixLinks"
       "sixLinks (join '' '' (keywordsOr [''quantum''] ''artificial intelligence'')) = Inr (Arr exampleLinks)"
    by (simp_all add: linksOnlyRequire_def linksOnlyClass_def linksOnlyAdapter_def nothingCollected_def
          sixLinks_def nonEmptyArray_def)
  have b: "requireModule ((exampleEnv offlineWeb)\<lparr>requireModule := blockedRequire\<rparr>)
             (adapterFile ((exampleEnv offlineWeb)\<lparr>requireModule := blockedRequire\<rparr>) ''duckDuckGoAdapter.js'')
             = Inr (ClassExport blockedClass) \<and>
           blockedClass (retryOptions 10) = Inr blockedAdapter \<and>
           collectDataMethod blockedAdapter = Some nothingCollected \<and>
           nothingCollected (keywordsOr [''quantum''] ''artificial intelligence'') = Inr (Arr []) \<and>
           \<not> nonEmptyArray (Arr ([] :: raw_item list)) \<and>
           performSearchMethod blockedAdapter = Some noLinks"
       "noLinks (join '' '' (keywordsOr [''quantum''] ''artificial intelligence'')) = Inr (Arr []) \<and>
           \<not> nonEmptyArray (Arr ([] :: search_result list))"
    by (simp_all add: blockedRequire_def blockedClass_def blockedAdapter_def linksOnlyAdapter_def
          nothingCollected_def noLinks_def nonEmptyArray_def)
  have off: "performSearch offlineWeb x q = Inl (JsError ''getaddrinfo ENOTFOUND html.duckduckgo.com'')" for x q
    by (simp add: performSearch_def offlineWeb_def unreachablePages_def replyNone_def)
  have c: "requireModule (exampleEnv offlineWeb) (adapterFile (exampleEnv offlineWeb) ''duckDuckGoAdapter.js'')
             = Inr (ClassExport cls) \<and>
           cls (retryOptions 10) = Inr duck \<and>
           collectDataMethod duck = Some retry \<and>
           retry (keywordsOr [''quantum''] ''artificial intelligence'') = Inr (Arr []) \<and>
           \<not> nonEmptyArray (Arr ([] :: raw_item list)) \<and>
           performSearchMethod duck = Some searchOnlyCall"
       "searchOnlyCall (join '' '' (keywordsOr [''quantum''] ''artificial intelligence'')) =
          Inl (JsError ''getaddrinfo ENOTFOUND html.duckduckgo.com'')"
    by (simp_all add: exampleEnv_def adapterFile_def exampleRequire_def duckDuckGoModule_def Let_def
          cls_def duck_def retry_def searchOnlyCall_def off collectData_def try_catch_def kw
          arrayResult_def nonEmptyArray_def)
  have ne: "nonEmptyArray (Arr exampleLinks)"
       "elements (Arr exampleLinks) = exampleLinks" "s_url (hd exampleLinks) = ''https://a.example/1''"
    by (simp_all add: nonEmptyArray_def exampleLinks_def elements_def)
  have fresh: "results (state (newCollectionService emptyDisk)) = []"
    by (simp add: newCollectionService_def initialState_def)
  have links: "map r_sourceUrl (results (state (handleDuckDuckGoFallback
       ((exampleEnv offlineWeb)\<lparr>requireModule := linksOnlyRequire\<rparr>)
       ''duckduckgo'' [''quantum''] 10 ''run-1'' (newCollectionService emptyDisk)))) = [''https://a.example/1''] \<and>
   map r_isError (results (state (handleDuckDuckGoFallback
       ((exampleEnv offlineWeb)\<lparr>requireModule := linksOnlyRequire\<rparr>)
       ''duckduckgo'' [''quantum''] 10 ''run-1'' (newCollectionService emptyDisk)))) = [False] \<and>
   map r_content (results (state (handleDuckDuckGoFallback
       ((exampleEnv offlineWeb)\<lparr>requireModule := linksOnlyRequire\<rparr>)
       ''duckduckgo'' [''quantum''] 10 ''run-1'' (newCollectionService emptyDisk)))) =
     [''# Search results for \"quantum\"'' @ nl @ nl @
      ''1. [One](https://a.example/1)'' @ nl @ ''   first'' @ nl @ nl @
      ''2. [Two](https://a.example/2)'' @ nl @ ''   '' @ nl @ nl @
      ''3. [Three](https://a.example/3)'' @ nl @ ''   third'' @ nl @ nl @
      ''4. [Four](https://a.example/4)'' @ nl @ ''   fourth'' @ nl @ nl @
      ''5. [Five](https://a.example/5)'' @ nl @ ''   fifth'' @ nl @ nl @
      ''These links were found using DuckDuckGo search. Click on any link to view the actual page.'']"
    using fallback_search_only_tier [where e = "(exampleEnv offlineWeb)\<lparr>requireModule := linksOnlyRequire\<rparr>"
        and newAdapter = linksOnlyClass and maxRes = 10 and duckAdapter = linksOnlyAdapter
        and retry = nothingCollected and kws = "[''quantum'']" and retried = "Arr []"
        and searchOnlyCall = sixLinks and found = "Arr exampleLinks" and source = "''duckduckgo''"
        and cid = "''run-1''" and svc = "newCollectionService emptyDisk", unfolded Let_def]
      a
    unfolding ne lines kw
    by (auto simp: ne fresh nl_def)
  have t2: "\<exists>item rest. results (state blocked) = [] @ [item] \<and> r_isError item \<and>
      r_content item =
        ''DuckDuckGo search API returned no results. DuckDuckGo may be restricting automated queries.'' @
        nl @ nl @ ''Tried to collect data at: '' @ rest"
    using fallback_search_only_tier [where e = "(exampleEnv offlineWeb)\<lparr>requireModule := blockedRequire\<rparr>"
        and newAdapter = blockedClass and maxRes = 10 and duckAdapter = blockedAdapter
        and retry = nothingCollected and kws = "[''quantum'']" and retried = "Arr []"
        and searchOnlyCall = noLinks and found = "Arr []" and source = "''duckduckgo''"
        and cid = "''run-1''" and svc = "newCollectionService emptyDisk",
        unfolded Let_def fresh, folded blocked_def]
      b by blast
  have t3: "\<exists>item rest. results (state offline) = [] @ [item] \<and> r_isError item \<and>
      r_content item =
        ''Error during DuckDuckGo search: '' @ message (JsError ''getaddrinfo ENOTFOUND html.duckduckgo.com'') @
        nl @ nl @ ''Tried to collect data at: '' @ rest"
    using fallback_search_only_tier [where e = "exampleEnv offlineWeb"
        and newAdapter = cls and maxRes = 10 and duckAdapter = duck
        and retry = retry and kws = "[''quantum'']" and retried = "Arr []"
        and searchOnlyCall = searchOnlyCall
        and searchError = "JsError ''getaddrinfo ENOTFOUND html.duckduckgo.com''"
        and source = "''duckduckgo''"
        and cid = "''run-1''" and svc = "newCollectionService emptyDisk",
        unfolded Let_def fresh, folded offline_def]
      c by blast
  have f2: "map r_content (results (state blocked)) =
     [''DuckDuckGo search API returned no results. DuckDuckGo may be restricting automated queries.'' @
      nl @ nl @ ''Tried to collect data at: 0'' @ nl @ ''Keywords: quantum'' @ nl @ nl @
      ''To troubleshoot this issue:'' @ nl @ ''- Check your network connection'' @ nl @
      ''- Verify API credentials if applicable'' @ nl @ ''- Try different keywords'' @ nl @
      ''- Try again later'']"
    unfolding blocked_def by code_simp
  have f3: "map r_content (results (state offline)) =
     [''Error during DuckDuckGo search: getaddrinfo ENOTFOUND html.duckduckgo.com'' @
      nl @ nl @ ''Tried to collect data at: 0'' @ nl @ ''Keywords: quantum'' @ nl @ nl @
      ''To troubleshoot this issue:'' @ nl @ ''- Check your network connection'' @ nl @
      ''- Verify API credentials if applicable'' @ nl @ ''- Try different keywords'' @ nl @
      ''- Try again later'']"
    unfolding offline_def by code_simp
  have e2: "map r_isError (results (state blocked)) = [True]" using t2 by auto
  have e3: "map r_isError (results (state offline)) = [True]" using t3 by auto
  show ?thesis
    using links e2 f2 e3 f3 unfolding blocked_def offline_def by blast
qed

text \<open>
  The network is down: the retry of the web-search adapter returns no items and its
  search-only call throws. The one record appended reports the error of the search; it
  does not say that DuckDuckGo may be restricting automated queries.
\<close>

theorem fallback_search_error_is_another_record:
  "collectData offlineWeb exampleAdapter (Some [''quantum'']) = Inr [] \<and>
   performSearch offlineWeb exampleAdapter ''quantum'' =
     Inl (JsError ''getaddrinfo ENOTFOUND html.duckduckgo.com'') \<and>
   map r_isError (results (state (handleDuckDuckGoFallback (exampleEnv offlineWeb)
       ''duckduckgo'' [''quantum''] 10 ''run-1'' (newCollectionService emptyDisk)))) = [True] \<and>
   map r_content (results (state (handleDuckDuckGoFallback (exampleEnv offlineWeb)
       ''duckduckgo'' [''quantum''] 10 ''run-1'' (newCollectionService emptyDisk)))) =
     [''Error during DuckDuckGo search: getaddrinfo ENOTFOUND html.duckduckgo.com'' @
      nl @ nl @ ''Tried to collect data at: 0'' @ nl @ ''Keywords: quantum'' @ nl @ nl @
      ''To troubleshoot this issue:'' @ nl @ ''- Check your network connection'' @ nl @
      ''- Verify API credentials if applicable'' @ nl @ ''- Try different keywords'' @ nl @
      ''- Try again later''] \<and>
   \<not> str_includes (r_content (hd (results (state (handleDuckDuckGoFallback (exampleEnv offlineWeb)
       ''duckduckgo'' [''quantum''] 10 ''run-1'' (newCollectionService emptyDisk))))))
       ''restricting automated queries''"
  by code_simp


section \<open>The knowledge store\<close>





















text \<open>
  \<open>saveCollectionResults\<close> concatenates the records of the dated files as they are:
  only the records of the legacy file are checked against the ids already collected,
  and the records of the new run are appended unchecked.
\<close>

lemma readDatedFiles_concat:
  "readDatedFiles e fs files acc = acc @ concat (usableParts e fs files)"
  by (induction files arbitrary: acc)
     (auto simp: usableParts_def partitionBooks_def split: sum.splits file_data.splits)

text \<open>
  C4. Two saved runs over the source \<open>wikipedia\<close>, whose adapter computes the id of an
  article from its title, both find the same article. The merged index written by the
  second run holds the record of each run, with the same id: nothing was deduplicated,
  where the rule of the first occurrence would keep one record.
\<close>

theorem saved_index_keeps_both_occurrences:
  "map b_id (storedBooks (disk afterSecondRun) ''/data/knowledge-books.json'') =
     [''9f2b6a1c'', ''9f2b6a1c''] \<and>
   map b_collectionDate (storedBooks (disk afterSecondRun) ''/data/knowledge-books.json'') =
     [Some ''run-3'', Some ''run-7''] \<and>
   map b_id (dedupById {} (storedBooks (disk afterSecondRun) ''/data/knowledge-books.json'')) =
     [''9f2b6a1c'']"
  by code_simp


section \<open>A run whose results cannot be saved\<close>

text \<open>
  In \<open>serviceCollectData\<close> the error of a failed save leaves the run: whenever
  saving is requested and \<open>saveCollectionResults\<close> fails, the call fails with the same
  error and the state is the one \<open>saveCollectionResults\<close> left, which is never marked
  complete.
\<close>

lemma failed_save_propagates:
  assumes "saveToKnowledgeBooks cfg"
    and "saveCollectionResults e (uuidv4 e (clock svc + 1))
           (processSources e cfg (uuidv4 e (clock svc + 1)) (loadedKeys e) 0 (cfg_sources cfg)
              (startRun e cfg svc)) = (Inl err, svc')"
  shows "serviceCollectData e cfg svc = (Inl err, svc')"
  using assms by (simp add: serviceCollectData_def Let_def)

text \<open>
  C1. A run over two sources on a full disk: the call throws the error of the write, the
  state still says running, with the progress and the source of the last turn of the
  loop, and the two records collected are still counted.
\<close>

theorem failed_save_leaves_run_running:
  "fst (serviceCollectData (exampleEnv silentWeb) (exampleConfig [''duckduckgo'', ''wikipedia''] True)
          (newCollectionService fullDisk)) =
     Inl (JsError ''ENOSPC: no space left on device, write'') \<and>
   running (state (snd (serviceCollectData (exampleEnv silentWeb)
          (exampleConfig [''duckduckgo'', ''wikipedia''] True) (newCollectionService fullDisk)))) \<and>
   progress (state (snd (serviceCollectData (exampleEnv silentWeb)
          (exampleConfig [''duckduckgo'', ''wikipedia''] True) (newCollectionService fullDisk)))) = 50 \<and>
   currentSource (state (snd (serviceCollectData (exampleEnv silentWeb)
          (exampleConfig [''duckduckgo'', ''wikipedia''] True) (newCollectionService fullDisk)))) =
     ''wikipedia'' \<and>
   itemsCollected (state (snd (serviceCollectData (exampleEnv silentWeb)
          (exampleConfig [''duckduckgo'', ''wikipedia''] True) (newCollectionService fullDisk)))) = 2"
  by code_simp


section \<open>Starting a run twice\<close>

text \<open>A request to start that finds the run flag set changes nothing.\<close>

lemma start_rejected_while_running:
  "running (collectionState s) \<Longrightarrow> step isoTime (PostStart body) s = s"
  by (simp add: step_def postStart_def)

text \<open>
  C5. Two requests to start arrive before the interests of the first are loaded: both
  find the flag unset, and when their interests are loaded both start a run, the second
  while the flag set by the first is up. Two runs are then in flight.
\<close>

theorem overlapping_starts_run_twice:
  "running (collectionState (steps show_nat
      [PostStart exampleForm, PostStart exampleForm, InterestsLoaded 0 (Inr [])] initialServer)) \<and>
   runsInFlight (steps show_nat
      [PostStart exampleForm, PostStart exampleForm, InterestsLoaded 0 (Inr [])] initialServer) = 1 \<and>
   runsInFlight (steps show_nat
      [PostStart exampleForm, PostStart exampleForm, InterestsLoaded 0 (Inr []),
       InterestsLoaded 1 (Inr [])] initialServer) = 2"
  by code_simp

end
